theory Spec2Isabelle
  imports Main "HOL-Library.Word"
begin

unbundle bit_operations_syntax

section \<open>Bytes, hosts and return codes\<close>

text \<open>
  A \<open>std::string\<close> or an \<open>e::slice\<close> is a list of bytes; \<open>uint64_t\<close> is a 64-bit word
  (\<open>++version\<close> wraps around).
\<close>

type_synonym byte = "8 word"
type_synonym bytes = "byte list"
type_synonym u64 = "64 word"

text \<open>The one-byte tags of \<open>pocdaemon::run\<close> and the discriminators of the database keys.\<close>

definition char_P :: byte where "char_P = 0x50"
definition char_G :: byte where "char_G = 0x47"
definition char_a :: byte where "char_a = 0x61"
definition char_b :: byte where "char_b = 0x62"
definition char_A :: byte where "char_A = 0x41"
definition char_B :: byte where "char_B = 0x42"
definition char_L :: byte where "char_L = 0x4C"
definition char_R :: byte where "char_R = 0x52"

text \<open>\<open>common.h\<close>: the five hosts and the quorum.\<close>

definition HOSTA :: u64 where "HOSTA = push_bit 32 0xdeadbeef"
definition HOSTB :: u64 where "HOSTB = push_bit 32 0xbad1deaf"
definition HOSTC :: u64 where "HOSTC = push_bit 32 0x1eaff00d"
definition HOSTD :: u64 where "HOSTD = push_bit 32 0xdefec8ed"
definition HOSTE :: u64 where "HOSTE = push_bit 32 0xcafebabe"

definition NUM_HOSTS :: nat where "NUM_HOSTS = 5"
definition QUORUM :: nat where "QUORUM = NUM_HOSTS div 2 + 1"

definition HOSTS :: "u64 list" where
  "HOSTS = [HOSTA, HOSTB, HOSTC, HOSTD, HOSTE]"

text \<open>\<open>pocdb.h\<close>: the return codes, in the order of the enum.\<close>

datatype pocdb_returncode =
    POCDB_SUCCESS
  | POCDB_NOT_FOUND
  | POCDB_SEE_ERRNO
  | POCDB_SERVER_ERROR
  | POCDB_INTERNAL
  | POCDB_GARBAGE

fun rc_byte :: "pocdb_returncode \<Rightarrow> byte" where
  "rc_byte POCDB_SUCCESS = 0"
| "rc_byte POCDB_NOT_FOUND = 1"
| "rc_byte POCDB_SEE_ERRNO = 2"
| "rc_byte POCDB_SERVER_ERROR = 3"
| "rc_byte POCDB_INTERNAL = 4"
| "rc_byte POCDB_GARBAGE = 5"

section \<open>Ballots and pvalues\<close>

record ballot =
  number :: u64
  leader :: u64

text \<open>\<open>ballot()\<close>: both fields value-initialised to zero.\<close>

definition ballot0 :: ballot where
  "ballot0 = \<lparr>number = 0, leader = 0\<rparr>"

text \<open>\<open>ballot::operator <\<close> and \<open>ballot::operator >\<close> (\<open>rhs < *this\<close>).\<close>

definition ballot_less :: "ballot \<Rightarrow> ballot \<Rightarrow> bool" where
  "ballot_less x rhs \<longleftrightarrow>
     number x < number rhs \<or> (number x = number rhs \<and> leader x < leader rhs)"

definition ballot_greater :: "ballot \<Rightarrow> ballot \<Rightarrow> bool" where
  "ballot_greater x rhs \<longleftrightarrow> ballot_less rhs x"

text \<open>
  \<open>struct pvalue\<close> has the fields \<open>b\<close> and \<open>v\<close>; they are prefixed here, since a record
  field is a constant of the theory and these two letters name variables everywhere.
\<close>

record pvalue =
  pvalue_b :: ballot
  pvalue_v :: bytes

definition pvalue0 :: pvalue where
  "pvalue0 = \<lparr>pvalue_b = ballot0, pvalue_v = []\<rparr>"

section \<open>Serialisation\<close>

text \<open>
  Modelled from the spec: \<open>e::packer\<close> and \<open>e::unpacker\<close> belong to the library libe,
  which is not part of the sources. The wire format of the spec is used: integers are
  big-endian 64-bit, a byte string is prefixed by its size as a big-endian 32-bit integer.
  An unpacker is the list of the bytes not yet read; reading from it gives \<open>None\<close> when it
  goes into the error state.
\<close>

definition be_bytes :: "nat \<Rightarrow> nat \<Rightarrow> bytes" where
  "be_bytes n x = map (\<lambda>i. word_of_nat (x div 256 ^ i)) (rev [0..<n])"

definition be_value :: "bytes \<Rightarrow> nat" where
  "be_value bs = foldl (\<lambda>acc x. acc * 256 + unat x) 0 bs"

definition pack_uint64 :: "u64 \<Rightarrow> bytes" where
  "pack_uint64 w = be_bytes 8 (unat w)"

definition pack_slice :: "bytes \<Rightarrow> bytes" where
  "pack_slice s = be_bytes 4 (length s mod 2 ^ 32) @ s"

definition pack_ballot :: "ballot \<Rightarrow> bytes" where
  "pack_ballot x = pack_uint64 (number x) @ pack_uint64 (leader x)"

definition pack_pvalue :: "pvalue \<Rightarrow> bytes" where
  "pack_pvalue p = pack_ballot (pvalue_b p) @ pack_slice (pvalue_v p)"

definition unpack_uint8 :: "bytes \<Rightarrow> (byte \<times> bytes) option" where
  "unpack_uint8 bs = (case bs of [] \<Rightarrow> None | x # r \<Rightarrow> Some (x, r))"

definition unpack_uint64 :: "bytes \<Rightarrow> (u64 \<times> bytes) option" where
  "unpack_uint64 bs =
     (if length bs < 8 then None
      else Some (word_of_nat (be_value (take 8 bs)), drop 8 bs))"

definition unpack_slice :: "bytes \<Rightarrow> (bytes \<times> bytes) option" where
  "unpack_slice bs =
     (if length bs < 4 then None
      else let n = be_value (take 4 bs); r = drop 4 bs
           in if length r < n then None else Some (take n r, drop n r))"

definition unpack_ballot :: "bytes \<Rightarrow> (ballot \<times> bytes) option" where
  "unpack_ballot bs =
     (case unpack_uint64 bs of None \<Rightarrow> None
      | Some (n, r) \<Rightarrow>
          (case unpack_uint64 r of None \<Rightarrow> None
           | Some (l, r') \<Rightarrow> Some (\<lparr>number = n, leader = l\<rparr>, r')))"

definition unpack_pvalue :: "bytes \<Rightarrow> (pvalue \<times> bytes) option" where
  "unpack_pvalue bs =
     (case unpack_ballot bs of None \<Rightarrow> None
      | Some (x, r) \<Rightarrow>
          (case unpack_slice r of None \<Rightarrow> None
           | Some (s, r') \<Rightarrow> Some (\<lparr>pvalue_b = x, pvalue_v = s\<rparr>, r')))"

text \<open>
  The learned record ends with the eight bytes of \<open>ver\<close> as they lie in memory
  (\<open>val.append((const char*)&ver, sizeof(ver))\<close>) and \<open>get_acceptor_state\<close> reads them back
  through a \<open>uint64_t*\<close>. The byte order of the host is taken to be little-endian.
\<close>

definition raw_uint64 :: "u64 \<Rightarrow> bytes" where
  "raw_uint64 w = rev (be_bytes 8 (unat w))"

definition read_raw_uint64 :: "bytes \<Rightarrow> u64" where
  "read_raw_uint64 bs = word_of_nat (be_value (rev bs))"

section \<open>The durable map\<close>

text \<open>
  Modelled from the spec: LevelDB is an external library. The durable map supports get,
  synchronous put and "not found". Whether an operation on a key fails is decided by the
  two fault predicates; a failed operation leaves the map and the caller's buffer as they
  were, and so does a get of an absent key.
\<close>

datatype status = OK | NotFound | IOError

record leveldb =
  cells :: "bytes \<rightharpoonup> bytes"
  get_fails :: "bytes \<Rightarrow> bool"
  put_fails :: "bytes \<Rightarrow> bool"

definition db_Get :: "leveldb \<Rightarrow> bytes \<Rightarrow> bytes \<Rightarrow> status \<times> bytes" where
  "db_Get l k val =
     (if get_fails l k then (IOError, val)
      else case cells l k of None \<Rightarrow> (NotFound, val) | Some x \<Rightarrow> (OK, x))"

definition db_Put :: "leveldb \<Rightarrow> bytes \<Rightarrow> bytes \<Rightarrow> status \<times> leveldb" where
  "db_Put l k val =
     (if put_fails l k then (IOError, l)
      else (OK, l\<lparr>cells := (cells l)(k \<mapsto> val)\<rparr>))"

section \<open>The write state machine and the daemon\<close>

text \<open>
  \<open>struct write_state_machine\<close>. The queue \<open>values\<close> is called \<open>values_q\<close>:
  \<open>values\<close> is a command of Isabelle. The mutex is left out: every entry point holds it
  from its first to its last statement.
\<close>

record write_state_machine =
  key :: bytes
  values_q :: "(u64 \<times> bytes) list"
  executing_paxos :: bool
  leading :: ballot
  promises :: "u64 list"
  accepted :: "u64 list"
  max_accepted :: pvalue
  version :: u64

record pocdaemon =
  host :: u64
  db :: leveldb
  writes :: "bytes \<rightharpoonup> write_state_machine"

text \<open>What a handler sends: the calls of \<open>busybee->send\<close> in order, destination and body.\<close>

type_synonym sends = "(u64 \<times> bytes) list"

text \<open>
  Undefined behaviour of the C++ that the model makes a result: a read before the start of
  a buffer, \<open>front()\<close> of an empty list, and a read of the bytes of a slice after the
  buffer it points into has been freed. The last one carries the daemon as it is when the
  freed bytes are read: what was put into the durable map before stays there.
\<close>

datatype ub = OutOfBoundsRead | FrontOfEmptyList | UseAfterFree pocdaemon

section \<open>The acceptor\<close>

definition unpack_acceptor :: "bytes \<Rightarrow> (u64 \<times> ballot \<times> pvalue) option" where
  "unpack_acceptor val =
     (case unpack_uint64 val of None \<Rightarrow> None
      | Some (ver, r) \<Rightarrow>
          (case unpack_ballot r of None \<Rightarrow> None
           | Some (x, r') \<Rightarrow>
               (case unpack_pvalue r' of None \<Rightarrow> None
                | Some (p, _) \<Rightarrow> Some (ver, x, p))))"

text \<open>
  \<open>pocdaemon::get_acceptor_state\<close>. The result holds the return code and the three output
  parameters; where the code returns an error the callers never read them, and the
  model gives the values they were initialised with.
\<close>

definition get_acceptor_state ::
  "pocdaemon \<Rightarrow> bytes \<Rightarrow> ub + (pocdb_returncode \<times> u64 \<times> ballot \<times> pvalue)" where
  "get_acceptor_state d k =
     (case db_Get (db d) (k @ [char_A]) [] of
        (NotFound, _) \<Rightarrow> Inr (POCDB_SUCCESS, 0, ballot0, pvalue0)
      | (IOError, _) \<Rightarrow> Inr (POCDB_SERVER_ERROR, 0, ballot0, pvalue0)
      | (OK, val) \<Rightarrow>
          (case unpack_acceptor val of
             None \<Rightarrow> Inr (POCDB_SERVER_ERROR, 0, ballot0, pvalue0)
           | Some (ver, x, p) \<Rightarrow>
               (case db_Get (db d) (k @ [char_L]) val of
                  (OK, val') \<Rightarrow>
                    if length val' < 8 then Inl OutOfBoundsRead
                    else
                      let written = read_raw_uint64 (drop (length val' - 8) val')
                      in if ver = written then Inr (POCDB_SUCCESS, ver + 1, ballot0, pvalue0)
                         else Inr (POCDB_SUCCESS, ver, x, p)
                | (_, _) \<Rightarrow>
                    if ver = 0 then Inr (POCDB_SUCCESS, ver + 1, ballot0, pvalue0)
                    else Inr (POCDB_SUCCESS, ver, x, p))))"

text \<open>\<open>pocdaemon::save_acceptor_state\<close>: the return code and the daemon with the new map.\<close>

definition save_acceptor_state ::
  "pocdaemon \<Rightarrow> bytes \<Rightarrow> u64 \<Rightarrow> ballot \<Rightarrow> pvalue \<Rightarrow> pocdb_returncode \<times> pocdaemon" where
  "save_acceptor_state d k ver x p =
     (case db_Put (db d) (k @ [char_A]) (pack_uint64 ver @ pack_ballot x @ pack_pvalue p) of
        (OK, l) \<Rightarrow> (POCDB_SUCCESS, d\<lparr>db := l\<rparr>)
      | (_, l) \<Rightarrow> (POCDB_SERVER_ERROR, d\<lparr>db := l\<rparr>))"

text \<open>The chains \<open>up >> k >> ver >> b\<close> and \<open>up >> k >> ver >> b >> v\<close> of the handlers.\<close>

definition unpack_k_ver_b :: "bytes \<Rightarrow> (bytes \<times> u64 \<times> ballot) option" where
  "unpack_k_ver_b up =
     (case unpack_slice up of None \<Rightarrow> None
      | Some (k, r) \<Rightarrow>
          (case unpack_uint64 r of None \<Rightarrow> None
           | Some (ver, r') \<Rightarrow>
               (case unpack_ballot r' of None \<Rightarrow> None
                | Some (x, _) \<Rightarrow> Some (k, ver, x))))"

definition unpack_k_ver_b_v :: "bytes \<Rightarrow> (bytes \<times> u64 \<times> ballot \<times> pvalue) option" where
  "unpack_k_ver_b_v up =
     (case unpack_slice up of None \<Rightarrow> None
      | Some (k, r) \<Rightarrow>
          (case unpack_uint64 r of None \<Rightarrow> None
           | Some (ver, r') \<Rightarrow>
               (case unpack_ballot r' of None \<Rightarrow> None
                | Some (x, r'') \<Rightarrow>
                    (case unpack_pvalue r'' of None \<Rightarrow> None
                     | Some (p, _) \<Rightarrow> Some (k, ver, x, p)))))"

text \<open>
  \<open>pocdaemon::process_phase1a\<close>, from sender \<open>c\<close> with the unpacker \<open>up\<close>. The slice
  \<open>k\<close> that \<open>up >> k\<close> fills is a view into the buffer of the received message \<open>msg\<close>,
  not a copy. The load and the save copy its bytes while the buffer is alive. The reply is
  built after \<open>msg.reset(e::buffer::create(sz))\<close> has freed that buffer, and
  \<open>uint8_t('b') << k << cur_ver << cur_b << cur_v\<close> reads the bytes of \<open>k\<close>: every path
  that reaches the reply ends in that read, before anything is sent (for an empty key too:
  the pointer handed to the copy is no longer valid). \<open>process_get\<close> copies the key into
  a string before its own reset.
\<close>

definition process_phase1a :: "u64 \<Rightarrow> bytes \<Rightarrow> pocdaemon \<Rightarrow> ub + (pocdaemon \<times> sends)" where
  "process_phase1a c up d =
     (case unpack_k_ver_b up of
        None \<Rightarrow> Inr (d, [])
      | Some (k, ver, x) \<Rightarrow>
          (case get_acceptor_state d k of
             Inl u \<Rightarrow> Inl u
           | Inr (rc, cur_ver, cur_b, cur_v) \<Rightarrow>
               if rc \<noteq> POCDB_SUCCESS then Inr (d, [])
               else if c = leader x \<and> ballot_greater x cur_b \<and> ver \<ge> cur_ver then
                 (case save_acceptor_state d k ver x cur_v of
                    (rc', d') \<Rightarrow>
                      if rc' \<noteq> POCDB_SUCCESS then Inr (d', [])
                      else Inl (UseAfterFree d'))
               else Inl (UseAfterFree d)))"

text \<open>
  \<open>pocdaemon::process_phase2a\<close>. Both replies, \<open>uint8_t('B') << k << cur_ver << cur_b\<close>
  and \<open>uint8_t('R') << k\<close>, are packed after \<open>msg.reset\<close> has freed the buffer that \<open>k\<close>
  points into.
\<close>

definition process_phase2a :: "u64 \<Rightarrow> bytes \<Rightarrow> pocdaemon \<Rightarrow> ub + (pocdaemon \<times> sends)" where
  "process_phase2a c up d =
     (case unpack_k_ver_b_v up of
        None \<Rightarrow> Inr (d, [])
      | Some (k, ver, x, p) \<Rightarrow>
          (case get_acceptor_state d k of
             Inl u \<Rightarrow> Inl u
           | Inr (rc, cur_ver, cur_b, cur_v) \<Rightarrow>
               if rc \<noteq> POCDB_SUCCESS then Inr (d, [])
               else if ver = cur_ver \<and> x = cur_b then
                 (case save_acceptor_state d k ver x p of
                    (rc', d') \<Rightarrow>
                      if rc' \<noteq> POCDB_SUCCESS then Inr (d', [])
                      else Inl (UseAfterFree d'))
               else Inl (UseAfterFree d)))"

section \<open>The learner and the reader\<close>

definition unpack_k_ver_v :: "bytes \<Rightarrow> (bytes \<times> u64 \<times> bytes) option" where
  "unpack_k_ver_v up =
     (case unpack_slice up of None \<Rightarrow> None
      | Some (k, r) \<Rightarrow>
          (case unpack_uint64 r of None \<Rightarrow> None
           | Some (ver, r') \<Rightarrow>
               (case unpack_slice r' of None \<Rightarrow> None
                | Some (val, _) \<Rightarrow> Some (k, ver, val))))"

text \<open>
  \<open>pocdaemon::process_learn\<close>: the put is not guarded by any comparison of versions, and its
  status is only logged.
\<close>

definition process_learn :: "u64 \<Rightarrow> bytes \<Rightarrow> pocdaemon \<Rightarrow> pocdaemon \<times> sends" where
  "process_learn c up d =
     (case unpack_k_ver_v up of
        None \<Rightarrow> (d, [])
      | Some (k, ver, val) \<Rightarrow>
          (case db_Put (db d) (k @ [char_L]) (val @ raw_uint64 ver) of
             (st, l) \<Rightarrow> (d\<lparr>db := l\<rparr>, [])))"

text \<open>\<open>pocdaemon::process_get\<close>: \<open>val\<close> loses its last eight bytes only if it has more than eight.\<close>

definition process_get :: "u64 \<Rightarrow> bytes \<Rightarrow> pocdaemon \<Rightarrow> pocdaemon \<times> sends" where
  "process_get c up d =
     (case unpack_slice up of
        None \<Rightarrow> (d, [])
      | Some (k, _) \<Rightarrow>
          (case db_Get (db d) (k @ [char_L]) [] of
             (st, val) \<Rightarrow>
               let rc = (case st of NotFound \<Rightarrow> POCDB_NOT_FOUND
                                  | OK \<Rightarrow> POCDB_SUCCESS
                                  | IOError \<Rightarrow> POCDB_SERVER_ERROR);
                   val' = (if length val > 8 then take (length val - 8) val else val)
               in (d, [(c, [rc_byte rc] @ pack_slice val')])))"

section \<open>The proposer\<close>

text \<open>The constructor \<open>write_state_machine(k)\<close>: every member value-initialised.\<close>

definition new_write_state_machine :: "bytes \<Rightarrow> write_state_machine" where
  "new_write_state_machine k =
     \<lparr>key = k, values_q = [], executing_paxos = False, leading = ballot0,
      promises = [], accepted = [], max_accepted = pvalue0, version = 0\<rparr>"

definition finished :: "write_state_machine \<Rightarrow> bool" where
  "finished s \<longleftrightarrow> values_q s = []"

text \<open>The bodies of the messages the proposer sends.\<close>

definition msg_phase1a :: "bytes \<Rightarrow> u64 \<Rightarrow> ballot \<Rightarrow> bytes" where
  "msg_phase1a k ver x = [char_a] @ pack_slice k @ pack_uint64 ver @ pack_ballot x"

definition msg_phase2a :: "bytes \<Rightarrow> u64 \<Rightarrow> ballot \<Rightarrow> pvalue \<Rightarrow> bytes" where
  "msg_phase2a k ver x p = [char_A] @ pack_slice k @ pack_uint64 ver @ pack_ballot x @ pack_pvalue p"

definition msg_learn :: "bytes \<Rightarrow> u64 \<Rightarrow> bytes \<Rightarrow> bytes" where
  "msg_learn k ver val = [char_L] @ pack_slice k @ pack_uint64 ver @ pack_slice val"

definition msg_put_reply :: "pocdb_returncode \<Rightarrow> bytes" where
  "msg_put_reply rc = [rc_byte rc]"

text \<open>
  The branch \<open>else if (!executing_paxos)\<close> of \<open>work_state_machine\<close>, which starts a round;
  \<open>h\<close> is \<open>d->host\<close> and \<open>now\<close> what \<open>po6::wallclock_time()\<close> returns. It is entered
  with a non-empty queue only.
\<close>

definition start_round :: "u64 \<Rightarrow> u64 \<Rightarrow> write_state_machine \<Rightarrow> write_state_machine" where
  "start_round h now s =
     s\<lparr>executing_paxos := True,
       leading := \<lparr>number = now, leader = h\<rparr>,
       promises := [],
       accepted := [],
       max_accepted := \<lparr>pvalue_b = ballot0, pvalue_v = snd (hd (values_q s))\<rparr>\<rparr>"

text \<open>The three loops over \<open>HOSTS\<close>.\<close>

definition send_phase1a :: "write_state_machine \<Rightarrow> sends" where
  "send_phase1a s =
     map (\<lambda>i. (i, msg_phase1a (key s) (version s) (leading s)))
         (filter (\<lambda>i. i \<notin> set (promises s)) HOSTS)"

definition send_phase2a :: "write_state_machine \<Rightarrow> sends" where
  "send_phase2a s =
     map (\<lambda>i. (i, msg_phase2a (key s) (version s) (leading s) (max_accepted s)))
         (filter (\<lambda>i. i \<notin> set (accepted s)) HOSTS)"

definition send_learn :: "write_state_machine \<Rightarrow> sends" where
  "send_learn s =
     map (\<lambda>i. (i, msg_learn (key s) (version s) (pvalue_v (max_accepted s)))) HOSTS"

text \<open>Putting what was sent before a recursive call in front of what the call sends.\<close>

definition sent_before ::
  "sends \<Rightarrow> ub + (write_state_machine \<times> sends) \<Rightarrow> ub + (write_state_machine \<times> sends)" where
  "sent_before out r = (case r of Inl u \<Rightarrow> Inl u | Inr (s, out') \<Rightarrow> Inr (s, out @ out'))"

text \<open>
  \<open>write_state_machine::work_state_machine\<close>. The clock is read in the round-start
  branch only, and that branch is taken at most once in a call from outside (after it
  neither recursive call can be reached), so one reading \<open>now\<close> is enough.
\<close>

function work_state_machine ::
  "u64 \<Rightarrow> u64 \<Rightarrow> write_state_machine \<Rightarrow> ub + (write_state_machine \<times> sends)" where
  "work_state_machine h now s =
     (if \<not> executing_paxos s \<and> values_q s = [] then Inr (s, [])
      else
        let s1 = (if \<not> executing_paxos s then start_round h now s else s) in
        if ballot_greater (pvalue_b (max_accepted s1)) (leading s1) then
          work_state_machine h now (s1\<lparr>executing_paxos := False\<rparr>)
        else if length (promises s1) < QUORUM then Inr (s1, send_phase1a s1)
        else if length (accepted s1) < QUORUM then
          (let s2 = s1\<lparr>max_accepted := (max_accepted s1)\<lparr>pvalue_b := leading s1\<rparr>\<rparr>
           in Inr (s2, send_phase2a s2))
        else
          (case values_q s1 of
             [] \<Rightarrow> Inl FrontOfEmptyList
           | (c, val) # rest \<Rightarrow>
               let s2 = s1\<lparr>executing_paxos := False, version := version s1 + 1\<rparr> in
               if pvalue_v (max_accepted s1) = val then
                 sent_before (send_learn s1 @ [(c, msg_put_reply POCDB_SUCCESS)])
                   (work_state_machine h now (s2\<lparr>values_q := rest\<rparr>))
               else
                 sent_before (send_learn s1) (work_state_machine h now s2)))"
  by pat_completeness auto

termination work_state_machine
proof (relation "measure (\<lambda>(h, now, s). if executing_paxos s then 1 else 0)")
  show "wf (measure (\<lambda>(h, now, s). if executing_paxos s then 1 else (0::nat)))"
    by simp
next
  fix h now :: u64 and s s1 :: write_state_machine
  assume "\<not> (\<not> executing_paxos s \<and> values_q s = [])"
    and s1: "s1 = (if \<not> executing_paxos s then start_round h now s else s)"
    and "ballot_greater (pvalue_b (max_accepted s1)) (leading s1)"
  then have "executing_paxos s"
    by (auto simp: start_round_def ballot_greater_def ballot_less_def ballot0_def
        split: if_splits)
  then show "((h, now, s1\<lparr>executing_paxos := False\<rparr>), (h, now, s)) \<in>
      measure (\<lambda>(h, now, s). if executing_paxos s then 1 else 0)"
    by simp
next
  fix h now :: u64 and s s1 s2 :: write_state_machine
    and x21 :: "u64 \<times> bytes" and rest :: "(u64 \<times> bytes) list" and c :: u64 and val :: bytes
  assume s1: "s1 = (if \<not> executing_paxos s then start_round h now s else s)"
    and "\<not> length (promises s1) < QUORUM"
    and s2: "s2 = s1\<lparr>executing_paxos := False, version := version s1 + 1\<rparr>"
  then have ex: "executing_paxos s"
    by (auto simp: start_round_def QUORUM_def NUM_HOSTS_def split: if_splits)
  show "((h, now, s2\<lparr>values_q := rest\<rparr>), (h, now, s)) \<in>
      measure (\<lambda>(h, now, s). if executing_paxos s then 1 else 0)"
    using ex s2 by simp
  show "((h, now, s2), (h, now, s)) \<in>
      measure (\<lambda>(h, now, s). if executing_paxos s then 1 else 0)"
    using ex s2 by simp
qed

text \<open>The four entry points (\<open>write\<close> is a reserved word of Isabelle, hence \<open>wsm_write\<close>).\<close>

definition wsm_write ::
  "u64 \<Rightarrow> bytes \<Rightarrow> u64 \<Rightarrow> u64 \<Rightarrow> write_state_machine \<Rightarrow> ub + (write_state_machine \<times> sends)" where
  "wsm_write c val h now s = work_state_machine h now (s\<lparr>values_q := values_q s @ [(c, val)]\<rparr>)"

definition phase1b ::
  "u64 \<Rightarrow> u64 \<Rightarrow> ballot \<Rightarrow> pvalue \<Rightarrow> u64 \<Rightarrow> u64 \<Rightarrow> write_state_machine
     \<Rightarrow> ub + (write_state_machine \<times> sends)" where
  "phase1b c ver x p h now s =
     (if (version s \<noteq> 0 \<and> ver > version s) \<or> ballot_greater x (leading s) then
        work_state_machine h now (s\<lparr>executing_paxos := False, version := ver\<rparr>)
      else
        let s1 = s\<lparr>version := ver\<rparr>;
            s2 = (if pvalue_b p \<noteq> ballot0 \<and> ballot_greater (pvalue_b p) (pvalue_b (max_accepted s1))
                  then s1\<lparr>max_accepted := p\<rparr> else s1)
        in work_state_machine h now (s2\<lparr>promises := promises s2 @ [c]\<rparr>))"

definition phase2b ::
  "u64 \<Rightarrow> u64 \<Rightarrow> ballot \<Rightarrow> u64 \<Rightarrow> u64 \<Rightarrow> write_state_machine
     \<Rightarrow> ub + (write_state_machine \<times> sends)" where
  "phase2b c ver x h now s =
     (if ver \<noteq> version s \<or> x \<noteq> leading s then Inr (s, [])
      else work_state_machine h now (s\<lparr>accepted := accepted s @ [c]\<rparr>))"

definition retry :: "u64 \<Rightarrow> u64 \<Rightarrow> write_state_machine \<Rightarrow> ub + (write_state_machine \<times> sends)" where
  "retry h now s =
     work_state_machine h now (s\<lparr>executing_paxos := False, version := version s + 1\<rparr>)"

section \<open>The table of state machines and the dispatcher\<close>

text \<open>
  Modelled from the spec: \<open>e::state_hash_table\<close> belongs to libe. An entry is created on
  demand; when the handler's reference goes out of scope the entry is reclaimed if the
  machine reports that it is idle (\<open>finished()\<close>), and kept otherwise.
\<close>

definition get_or_create_state :: "pocdaemon \<Rightarrow> bytes \<Rightarrow> write_state_machine" where
  "get_or_create_state d k =
     (case writes d k of None \<Rightarrow> new_write_state_machine k | Some sm \<Rightarrow> sm)"

definition release_state :: "pocdaemon \<Rightarrow> bytes \<Rightarrow> write_state_machine \<Rightarrow> pocdaemon" where
  "release_state d k sm =
     (if finished sm then d\<lparr>writes := (writes d)(k := None)\<rparr>
      else d\<lparr>writes := (writes d)(k \<mapsto> sm)\<rparr>)"

text \<open>A handler's call of an entry point of the machine for \<open>k\<close>, and the release after it.\<close>

definition on_state ::
  "pocdaemon \<Rightarrow> bytes \<Rightarrow> (write_state_machine \<Rightarrow> ub + (write_state_machine \<times> sends))
     \<Rightarrow> ub + (pocdaemon \<times> sends)" where
  "on_state d k f =
     (case f (get_or_create_state d k) of
        Inl u \<Rightarrow> Inl u
      | Inr (sm, out) \<Rightarrow> Inr (release_state d k sm, out))"

definition unpack_k_v :: "bytes \<Rightarrow> (bytes \<times> bytes) option" where
  "unpack_k_v up =
     (case unpack_slice up of None \<Rightarrow> None
      | Some (k, r) \<Rightarrow>
          (case unpack_slice r of None \<Rightarrow> None
           | Some (val, _) \<Rightarrow> Some (k, val)))"

definition process_put :: "u64 \<Rightarrow> bytes \<Rightarrow> u64 \<Rightarrow> pocdaemon \<Rightarrow> ub + (pocdaemon \<times> sends)" where
  "process_put c up now d =
     (case unpack_k_v up of
        None \<Rightarrow> Inr (d, [])
      | Some (k, val) \<Rightarrow> on_state d k (wsm_write c val (host d) now))"

definition process_phase1b :: "u64 \<Rightarrow> bytes \<Rightarrow> u64 \<Rightarrow> pocdaemon \<Rightarrow> ub + (pocdaemon \<times> sends)" where
  "process_phase1b c up now d =
     (case unpack_k_ver_b_v up of
        None \<Rightarrow> Inr (d, [])
      | Some (k, ver, x, p) \<Rightarrow> on_state d k (phase1b c ver x p (host d) now))"

definition process_phase2b :: "u64 \<Rightarrow> bytes \<Rightarrow> u64 \<Rightarrow> pocdaemon \<Rightarrow> ub + (pocdaemon \<times> sends)" where
  "process_phase2b c up now d =
     (case unpack_k_ver_b up of
        None \<Rightarrow> Inr (d, [])
      | Some (k, ver, x) \<Rightarrow> on_state d k (phase2b c ver x (host d) now))"

text \<open>
  \<open>pocdaemon::process_retry\<close> declares \<open>e::slice k\<close> and checks the unpacker, which the
  dispatcher has left without error, but reads nothing from it: \<open>k\<close> is the empty slice of
  the default constructor.
\<close>

definition process_retry :: "u64 \<Rightarrow> bytes \<Rightarrow> u64 \<Rightarrow> pocdaemon \<Rightarrow> ub + (pocdaemon \<times> sends)" where
  "process_retry c up now d =
     (let k = [] in on_state d k (retry (host d) now))"

text \<open>
  One turn of the loop of \<open>pocdaemon::run\<close> for a message \<open>msg\<close> (after the transport's
  header) received from \<open>c\<close>.
\<close>

definition lift_handler :: "pocdaemon \<times> sends \<Rightarrow> ub + (pocdaemon \<times> sends)" where
  "lift_handler r = Inr r"

definition run_message :: "u64 \<Rightarrow> bytes \<Rightarrow> u64 \<Rightarrow> pocdaemon \<Rightarrow> ub + (pocdaemon \<times> sends)" where
  "run_message c msg now d =
     (case unpack_uint8 msg of
        None \<Rightarrow> Inr (d, [])
      | Some (type, up) \<Rightarrow>
          if type = char_P then process_put c up now d
          else if type = char_G then lift_handler (process_get c up d)
          else if type = char_a then process_phase1a c up d
          else if type = char_b then process_phase1b c up now d
          else if type = char_A then process_phase2a c up d
          else if type = char_B then process_phase2b c up now d
          else if type = char_L then lift_handler (process_learn c up d)
          else if type = char_R then process_retry c up now d
          else Inr (d, []))"

section \<open>Observations used by the properties\<close>

text \<open>
  The version stored in the learned record of \<open>k\<close>, read the way \<open>get_acceptor_state\<close>
  reads it: the last eight bytes of the record.
\<close>

definition learned_version :: "pocdaemon \<Rightarrow> bytes \<Rightarrow> u64 option" where
  "learned_version d k =
     (case cells (db d) (k @ [char_L]) of
        None \<Rightarrow> None
      | Some val \<Rightarrow>
          if length val < 8 then None
          else Some (read_raw_uint64 (drop (length val - 8) val)))"

text \<open>
  Sequences of calls of the four entry points of one machine, each with the reading of
  the clock at the time of the call.
\<close>

datatype wsm_op =
    Write u64 bytes
  | Phase1b u64 u64 ballot pvalue
  | Phase2b u64 u64 ballot
  | Retry

fun apply_op ::
  "u64 \<Rightarrow> u64 \<Rightarrow> wsm_op \<Rightarrow> write_state_machine \<Rightarrow> ub + (write_state_machine \<times> sends)" where
  "apply_op h now (Write c val) s = wsm_write c val h now s"
| "apply_op h now (Phase1b c ver x p) s = phase1b c ver x p h now s"
| "apply_op h now (Phase2b c ver x) s = phase2b c ver x h now s"
| "apply_op h now Retry s = retry h now s"

fun run_ops ::
  "u64 \<Rightarrow> (u64 \<times> wsm_op) list \<Rightarrow> write_state_machine \<Rightarrow> ub + (write_state_machine \<times> sends)" where
  "run_ops h [] s = Inr (s, [])"
| "run_ops h ((now, opn) # ops) s =
     (case apply_op h now opn s of
        Inl u \<Rightarrow> Inl u
      | Inr (s', out) \<Rightarrow> sent_before out (run_ops h ops s'))"

text \<open>A daemon with an empty map, an empty table and no faults, and maps with faults.\<close>

definition no_fault :: "bytes \<Rightarrow> bool" where
  "no_fault k = False"

definition all_fault :: "bytes \<Rightarrow> bool" where
  "all_fault k = True"

definition fresh_daemon :: "u64 \<Rightarrow> pocdaemon" where
  "fresh_daemon h =
     \<lparr>host = h,
      db = \<lparr>cells = Map.empty, get_fails = no_fault, put_fails = no_fault\<rparr>,
      writes = Map.empty\<rparr>"

text \<open>
  A replica that has promised the ballot (1000, A) for version 1 of the key \<open>x\<close> and has
  accepted nothing, and replicas whose map fails every get or every put.
\<close>

definition promised_daemon :: pocdaemon where
  "promised_daemon =
     (fresh_daemon HOSTC)\<lparr>db := (db (fresh_daemon HOSTC))\<lparr>cells :=
        [[0x78] @ [char_A] \<mapsto>
           pack_uint64 1 @ pack_ballot \<lparr>number = 1000, leader = HOSTA\<rparr> @ pack_pvalue pvalue0]\<rparr>\<rparr>"

definition get_faulty_daemon :: pocdaemon where
  "get_faulty_daemon = (fresh_daemon HOSTC)\<lparr>db := (db (fresh_daemon HOSTC))\<lparr>get_fails := all_fault\<rparr>\<rparr>"

definition put_faulty_daemon :: pocdaemon where
  "put_faulty_daemon = (fresh_daemon HOSTC)\<lparr>db := (db (fresh_daemon HOSTC))\<lparr>put_fails := all_fault\<rparr>\<rparr>"

text \<open>The property of a machine that a round in flight has a pending write.\<close>

definition queue_ok :: "write_state_machine \<Rightarrow> bool" where
  "queue_ok s \<longleftrightarrow> (executing_paxos s \<longrightarrow> values_q s \<noteq> [])"

text \<open>The state a run ends in, without what it sent.\<close>

definition state_of :: "ub + (write_state_machine \<times> sends) \<Rightarrow> ub + write_state_machine" where
  "state_of r = (case r of Inl u \<Rightarrow> Inl u | Inr (s, out) \<Rightarrow> Inr s)"

text \<open>
  A run of the proposer A for the key \<open>x\<close>: the client 7 writes the value \<open>1\<close> at time
  1000, and A, B and C answer the phase-1a message with version 1, the ballot of A and
  nothing accepted. The machine is then in its phase 2 (\<open>proposing_machine\<close>). Once
  three phase-2b messages from the hosts \<open>acc\<close> have arrived it has decided and is idle
  (\<open>decided_machine acc\<close>). A second round, started at time 2000 for a write of the client
  8, begins in \<open>second_round_machine\<close>.
\<close>

definition ballot_A :: ballot where
  "ballot_A = \<lparr>number = 1000, leader = HOSTA\<rparr>"

definition promise_ops :: "(u64 \<times> wsm_op) list" where
  "promise_ops =
     [(1000, Write 7 [0x31]),
      (1001, Phase1b HOSTA 1 ballot_A pvalue0),
      (1002, Phase1b HOSTB 1 ballot_A pvalue0),
      (1003, Phase1b HOSTC 1 ballot_A pvalue0)]"

definition proposing_machine :: write_state_machine where
  "proposing_machine =
     \<lparr>key = [0x78], values_q = [(7, [0x31])], executing_paxos = True, leading = ballot_A,
      promises = [HOSTA, HOSTB, HOSTC], accepted = [],
      max_accepted = \<lparr>pvalue_b = ballot_A, pvalue_v = [0x31]\<rparr>, version = 1\<rparr>"

definition decided_machine :: "u64 list \<Rightarrow> write_state_machine" where
  "decided_machine acc =
     \<lparr>key = [0x78], values_q = [], executing_paxos = False, leading = ballot_A,
      promises = [HOSTA, HOSTB, HOSTC], accepted = acc,
      max_accepted = \<lparr>pvalue_b = ballot_A, pvalue_v = [0x31]\<rparr>, version = 2\<rparr>"

definition second_round_machine :: write_state_machine where
  "second_round_machine =
     \<lparr>key = [0x78], values_q = [(8, [0x32])], executing_paxos = True,
      leading = \<lparr>number = 2000, leader = HOSTA\<rparr>, promises = [], accepted = [],
      max_accepted = \<lparr>pvalue_b = ballot0, pvalue_v = [0x32]\<rparr>, version = 2\<rparr>"

text \<open>The daemon A with the machine for \<open>x\<close> in its phase 2 as the only entry of the table.\<close>

definition retry_daemon :: pocdaemon where
  "retry_daemon = (fresh_daemon HOSTA)\<lparr>writes := [[0x78] \<mapsto> proposing_machine]\<rparr>"

section \<open>Serialisation: what is packed is unpacked\<close>

declare work_state_machine.simps [simp del]

lemma be_bytes_Suc: "be_bytes (Suc n) x = word_of_nat (x div 256 ^ n) # be_bytes n x"
  by (simp add: be_bytes_def)

lemma length_be_bytes [simp]: "length (be_bytes n x) = n"
  by (simp add: be_bytes_def)

lemma foldl_be_bytes:
  "foldl (\<lambda>acc (x::byte). acc * 256 + unat x) a (be_bytes n x) = a * 256 ^ n + x mod 256 ^ n"
proof (induction n arbitrary: a)
  case 0
  show ?case by (simp add: be_bytes_def)
next
  case (Suc n)
  have u: "unat (word_of_nat (x div 256 ^ n) :: byte) = (x div 256 ^ n) mod 256"
    by (simp add: unat_of_nat)
  have m: "x mod 256 ^ Suc n = 256 ^ n * (x div 256 ^ n mod 256) + x mod 256 ^ n"
    using mod_mult2_eq [of x "256 ^ n" 256] by (simp add: mult.commute)
  have "foldl (\<lambda>acc (x::byte). acc * 256 + unat x) a (be_bytes (Suc n) x) =
      (a * 256 + (x div 256 ^ n) mod 256) * 256 ^ n + x mod 256 ^ n"
    by (simp only: be_bytes_Suc foldl_Cons Suc.IH u)
  also have "\<dots> = a * 256 ^ Suc n + x mod 256 ^ Suc n"
    unfolding m by (simp add: algebra_simps)
  finally show ?case .
qed

lemma be_value_be_bytes: "be_value (be_bytes n x) = x mod 256 ^ n"
  by (simp add: be_value_def foldl_be_bytes)

lemma unpack_uint64_pack [simp]: "unpack_uint64 (pack_uint64 w @ r) = Some (w, r)"
proof -
  have "unat w < 256 ^ 8" using unsigned_less [of w] by simp
  then show ?thesis
    by (simp add: unpack_uint64_def pack_uint64_def be_value_be_bytes)
qed

lemma unpack_slice_pack [simp]:
  "length s < 2 ^ 32 \<Longrightarrow> unpack_slice (pack_slice s @ r) = Some (s, r)"
  by (simp add: unpack_slice_def pack_slice_def be_value_be_bytes Let_def)

lemma unpack_ballot_pack [simp]: "unpack_ballot (pack_ballot x @ r) = Some (x, r)"
  by (simp add: unpack_ballot_def pack_ballot_def)

lemma unpack_pvalue_pack [simp]:
  "length (pvalue_v p) < 2 ^ 32 \<Longrightarrow> unpack_pvalue (pack_pvalue p @ r) = Some (p, r)"
  by (simp add: unpack_pvalue_def pack_pvalue_def)

lemma length_raw_uint64 [simp]: "length (raw_uint64 w) = 8"
  by (simp add: raw_uint64_def)

lemma read_raw_uint64_raw [simp]: "read_raw_uint64 (raw_uint64 w) = w"
proof -
  have "unat w < 256 ^ 8" using unsigned_less [of w] by simp
  then show ?thesis
    by (simp add: read_raw_uint64_def raw_uint64_def be_value_be_bytes)
qed

lemma unpack_k_ver_b_pack [simp]:
  "length k < 2 ^ 32 \<Longrightarrow>
   unpack_k_ver_b (pack_slice k @ pack_uint64 ver @ pack_ballot x) = Some (k, ver, x)"
  using unpack_ballot_pack [of x "[]"] by (simp add: unpack_k_ver_b_def)

lemma unpack_k_ver_b_v_pack [simp]:
  "length k < 2 ^ 32 \<Longrightarrow> length (pvalue_v p) < 2 ^ 32 \<Longrightarrow>
   unpack_k_ver_b_v (pack_slice k @ pack_uint64 ver @ pack_ballot x @ pack_pvalue p) =
     Some (k, ver, x, p)"
  using unpack_pvalue_pack [of p "[]"] by (simp add: unpack_k_ver_b_v_def)

lemma unpack_k_ver_v_pack [simp]:
  "length k < 2 ^ 32 \<Longrightarrow> length val < 2 ^ 32 \<Longrightarrow>
   unpack_k_ver_v (pack_slice k @ pack_uint64 ver @ pack_slice val) = Some (k, ver, val)"
  using unpack_slice_pack [of val "[]"] by (simp add: unpack_k_ver_v_def)

lemma unpack_slice_pack_only [simp]:
  "length k < 2 ^ 32 \<Longrightarrow> unpack_slice (pack_slice k) = Some (k, [])"
  using unpack_slice_pack [of k "[]"] by simp

section \<open>The learner and the reader: stored versions and the round trip\<close>

lemma fresh_daemon_simps [simp]:
  "host (fresh_daemon h) = h"
  "cells (db (fresh_daemon h)) = Map.empty"
  "get_fails (db (fresh_daemon h)) k = False"
  "put_fails (db (fresh_daemon h)) k = False"
  "writes (fresh_daemon h) = Map.empty"
  by (simp_all add: fresh_daemon_def no_fault_def)

lemma process_learn_stores:
  "length k < 2 ^ 32 \<Longrightarrow> length val < 2 ^ 32 \<Longrightarrow> \<not> put_fails (db d) (k @ [char_L]) \<Longrightarrow>
   process_learn c (pack_slice k @ pack_uint64 ver @ pack_slice val) d =
     (d\<lparr>db := (db d)\<lparr>cells := (cells (db d))(k @ [char_L] \<mapsto> val @ raw_uint64 ver)\<rparr>\<rparr>, [])"
  by (simp add: process_learn_def db_Put_def)

lemma learned_version_stored:
  "cells (db d) (k @ [char_L]) = Some (val @ raw_uint64 ver) \<Longrightarrow> learned_version d k = Some ver"
  by (simp add: learned_version_def)

text \<open>
  A value that is not empty comes back from \<open>process_get\<close> as it was learned, without
  the version.
\<close>

lemma get_after_learn_nonempty:
  "length k < 2 ^ 32 \<Longrightarrow> length val < 2 ^ 32 \<Longrightarrow> val \<noteq> [] \<Longrightarrow>
   \<not> put_fails (db d) (k @ [char_L]) \<Longrightarrow> \<not> get_fails (db d) (k @ [char_L]) \<Longrightarrow>
   snd (process_get c (pack_slice k)
     (fst (process_learn c' (pack_slice k @ pack_uint64 ver @ pack_slice val) d))) =
   [(c, [rc_byte POCDB_SUCCESS] @ pack_slice val)]"
  by (simp add: process_learn_stores process_get_def db_Get_def)

text \<open>
  C1. The claim: the version in the learned record of a key never decreases, the learner
  overwriting the record only for a strictly greater version. \<open>process_learn\<close> has no
  such comparison (its comment says that it should). On a replica that has learned the key
  \<open>x\<close> at version 5, the learn message for version 3 replaces the record: the stored
  version goes from 5 to 3.
\<close>

theorem learn_rolls_version_back:
  "learned_version
     (fst (process_learn c (pack_slice [0x78] @ pack_uint64 5 @ pack_slice [0x32]) (fresh_daemon h)))
     [0x78] = Some 5 \<and>
   learned_version
     (fst (process_learn c (pack_slice [0x78] @ pack_uint64 3 @ pack_slice [0x31])
        (fst (process_learn c (pack_slice [0x78] @ pack_uint64 5 @ pack_slice [0x32])
           (fresh_daemon h)))))
     [0x78] = Some 3"
  by (simp add: process_learn_stores learned_version_stored)

text \<open>
  C8. The claim: after the learner has stored a value for a key, the empty value
  included, a get of the key replies with success and that value, the version suffix
  stripped. \<open>process_get\<close> strips the suffix only from a record of more than eight bytes;
  the record of the empty value has exactly eight. After the learn message for the key
  \<open>x\<close>, version 1 and the empty value, the get replies with success and the eight bytes
  of the version as the value.
\<close>

theorem get_after_learn_of_empty_value:
  "process_get c (pack_slice [0x78])
     (fst (process_learn c' (pack_slice [0x78] @ pack_uint64 1 @ pack_slice []) (fresh_daemon h))) =
   (fst (process_learn c' (pack_slice [0x78] @ pack_uint64 1 @ pack_slice []) (fresh_daemon h)),
    [(c, [rc_byte POCDB_SUCCESS] @ pack_slice (raw_uint64 1))])"
  by (simp add: process_learn_stores process_get_def db_Get_def)

section \<open>The acceptor: promises and acceptances\<close>

lemma unpack_acceptor_pack [simp]:
  "length (pvalue_v p) < 2 ^ 32 \<Longrightarrow>
   unpack_acceptor (pack_uint64 ver @ pack_ballot x @ pack_pvalue p) = Some (ver, x, p)"
  using unpack_pvalue_pack [of p "[]"] by (simp add: unpack_acceptor_def)

lemma char_A_neq_char_L [simp]: "char_A \<noteq> char_L" "char_L \<noteq> char_A"
  by (simp_all add: char_A_def char_L_def)

lemma hosts_distinct: "distinct HOSTS"
  by (simp add: HOSTS_def HOSTA_def HOSTB_def HOSTC_def HOSTD_def HOSTE_def)

lemma get_acceptor_state_fresh [simp]:
  "get_acceptor_state (fresh_daemon h) k = Inr (POCDB_SUCCESS, 0, ballot0, pvalue0)"
  by (simp add: get_acceptor_state_def db_Get_def)

text \<open>
  A failed get of the learned record is not told apart from an absent record: the load
  goes on with \<open>written = 0\<close>.
\<close>

lemma get_acceptor_state_learned_get_fails:
  "\<not> get_fails (db d) (k @ [char_A]) \<Longrightarrow> cells (db d) (k @ [char_A]) = Some val \<Longrightarrow>
   unpack_acceptor val = Some (ver, x, p) \<Longrightarrow> get_fails (db d) (k @ [char_L]) \<Longrightarrow>
   get_acceptor_state d k =
     (if ver = 0 then Inr (POCDB_SUCCESS, 1, ballot0, pvalue0) else Inr (POCDB_SUCCESS, ver, x, p))"
  by (simp add: get_acceptor_state_def db_Get_def)

lemma get_acceptor_state_promised:
  "get_acceptor_state promised_daemon [0x78] =
     Inr (POCDB_SUCCESS, 1, \<lparr>number = 1000, leader = HOSTA\<rparr>, pvalue0)"
  by (simp add: get_acceptor_state_def db_Get_def promised_daemon_def pvalue0_def)

lemma get_acceptor_state_put_faulty:
  "get_acceptor_state put_faulty_daemon k = Inr (POCDB_SUCCESS, 0, ballot0, pvalue0)"
  by (simp add: get_acceptor_state_def db_Get_def put_faulty_daemon_def)

text \<open>
  Up to the reply the two handlers do what a Paxos acceptor does. With the state loaded as
  \<open>(cur_ver, cur_b, cur_v)\<close>, \<open>process_phase1a\<close> stores \<open>(ver, x, cur_v)\<close> exactly if \<open>c\<close>
  is the leader of \<open>x\<close>, \<open>x\<close> is greater than \<open>cur_b\<close> and \<open>ver\<close> is at least \<open>cur_ver\<close>;
  \<open>process_phase2a\<close> stores \<open>(ver, x, p)\<close> exactly if \<open>ver\<close> is \<open>cur_ver\<close> and \<open>x\<close> is
  \<open>cur_b\<close>. Then each of them reads the freed bytes of the key.
\<close>

lemma process_phase1a_until_reply:
  assumes "unpack_k_ver_b up = Some (k, ver, x)"
    and "get_acceptor_state d k = Inr (POCDB_SUCCESS, cur_ver, cur_b, cur_v)"
    and "c = leader x \<and> ballot_greater x cur_b \<and> cur_ver \<le> ver
           \<longrightarrow> \<not> put_fails (db d) (k @ [char_A])"
  shows "process_phase1a c up d =
     (if c = leader x \<and> ballot_greater x cur_b \<and> cur_ver \<le> ver
      then Inl (UseAfterFree (d\<lparr>db := (db d)\<lparr>cells := (cells (db d))
                  (k @ [char_A] \<mapsto> pack_uint64 ver @ pack_ballot x @ pack_pvalue cur_v)\<rparr>\<rparr>))
      else Inl (UseAfterFree d))"
  using assms by (auto simp: process_phase1a_def save_acceptor_state_def db_Put_def)

lemma process_phase2a_until_reply:
  assumes "unpack_k_ver_b_v up = Some (k, ver, x, p)"
    and "get_acceptor_state d k = Inr (POCDB_SUCCESS, cur_ver, cur_b, cur_v)"
    and "ver = cur_ver \<and> x = cur_b \<longrightarrow> \<not> put_fails (db d) (k @ [char_A])"
  shows "process_phase2a c up d =
     (if ver = cur_ver \<and> x = cur_b
      then Inl (UseAfterFree (d\<lparr>db := (db d)\<lparr>cells := (cells (db d))
                  (k @ [char_A] \<mapsto> pack_uint64 ver @ pack_ballot x @ pack_pvalue p)\<rparr>\<rparr>))
      else Inl (UseAfterFree d))"
  using assms by (auto simp: process_phase2a_def save_acceptor_state_def db_Put_def)

text \<open>
  C3. The claim: the acceptor accepts a phase-1a message \<open>(k, ver, b)\<close> from \<open>c\<close> exactly
  if \<open>c\<close> is the leader of \<open>b\<close>, \<open>b\<close> is above the loaded promised ballot and \<open>ver\<close> is
  at least the loaded version, stores \<open>(ver, b, accepted pvalue)\<close> on acceptance, and in
  both cases replies to \<open>c\<close> with a phase-1b message. \<open>process_phase1a\<close> decides and
  stores so, but it packs the key into the reply after it has freed the buffer that holds
  the key. A fresh replica that receives the phase-1a message for the key \<open>x\<close>, version 1
  and the ballot (1000, A) from A stores the promise and then reads freed memory; the
  replica that has promised (1000, A) and receives the ballot (900, B) from B stores
  nothing and reads freed memory. In neither case is a reply sent before that.
\<close>

theorem phase1a_reply_reads_freed_key:
  "process_phase1a HOSTA
     (pack_slice [0x78] @ pack_uint64 1 @ pack_ballot \<lparr>number = 1000, leader = HOSTA\<rparr>)
     (fresh_daemon HOSTC) = Inl (UseAfterFree promised_daemon) \<and>
   process_phase1a HOSTB
     (pack_slice [0x78] @ pack_uint64 1 @ pack_ballot \<lparr>number = 900, leader = HOSTB\<rparr>)
     promised_daemon = Inl (UseAfterFree promised_daemon)"
proof -
  have a: "ballot_greater \<lparr>number = 1000, leader = HOSTA\<rparr> ballot0"
    by (simp add: ballot_greater_def ballot_less_def ballot0_def)
  have b: "\<not> ballot_greater \<lparr>number = 900, leader = HOSTB\<rparr> \<lparr>number = 1000, leader = HOSTA\<rparr>"
    by (simp add: ballot_greater_def ballot_less_def)
  have "process_phase1a HOSTA
     (pack_slice [0x78] @ pack_uint64 1 @ pack_ballot \<lparr>number = 1000, leader = HOSTA\<rparr>)
     (fresh_daemon HOSTC) = Inl (UseAfterFree promised_daemon)"
    using process_phase1a_until_reply [of
        "pack_slice [0x78] @ pack_uint64 1 @ pack_ballot \<lparr>number = 1000, leader = HOSTA\<rparr>"
        "[0x78]" 1 "\<lparr>number = 1000, leader = HOSTA\<rparr>" "fresh_daemon HOSTC" 0 ballot0 pvalue0 HOSTA] a
    by (simp add: promised_daemon_def)
  moreover have "process_phase1a HOSTB
     (pack_slice [0x78] @ pack_uint64 1 @ pack_ballot \<lparr>number = 900, leader = HOSTB\<rparr>)
     promised_daemon = Inl (UseAfterFree promised_daemon)"
    using process_phase1a_until_reply [of
        "pack_slice [0x78] @ pack_uint64 1 @ pack_ballot \<lparr>number = 900, leader = HOSTB\<rparr>"
        "[0x78]" 1 "\<lparr>number = 900, leader = HOSTB\<rparr>" promised_daemon 1
        "\<lparr>number = 1000, leader = HOSTA\<rparr>" pvalue0 HOSTB] b
    by (simp add: get_acceptor_state_promised)
  ultimately show ?thesis by simp
qed

text \<open>
  C4. The claim: for a phase-2a message \<open>(k, ver, b, v)\<close> whose version and ballot are
  the loaded ones the acceptor stores \<open>(ver, b, v)\<close> and replies with the phase-2b message
  \<open>(k, ver, b)\<close>; otherwise it stores nothing and replies with the retry message \<open>(k)\<close>.
  \<open>process_phase2a\<close> decides and stores so, but it packs the key into either reply after
  it has freed the buffer that holds the key. The replica that has promised (1000, A) at
  version 1 of the key \<open>x\<close> stores the value proposed by A and then reads freed memory;
  for the phase-2a message with the ballot (900, B) it stores nothing and reads freed
  memory. In neither case is a reply sent before that.
\<close>

theorem phase2a_reply_reads_freed_key:
  "process_phase2a HOSTA
     (pack_slice [0x78] @ pack_uint64 1 @ pack_ballot \<lparr>number = 1000, leader = HOSTA\<rparr> @
      pack_pvalue \<lparr>pvalue_b = \<lparr>number = 1000, leader = HOSTA\<rparr>, pvalue_v = [0x31]\<rparr>)
     promised_daemon =
   Inl (UseAfterFree
     (promised_daemon\<lparr>db := (db promised_daemon)\<lparr>cells := (cells (db promised_daemon))
          ([0x78] @ [char_A] \<mapsto>
             pack_uint64 1 @ pack_ballot \<lparr>number = 1000, leader = HOSTA\<rparr> @
             pack_pvalue \<lparr>pvalue_b = \<lparr>number = 1000, leader = HOSTA\<rparr>, pvalue_v = [0x31]\<rparr>)\<rparr>\<rparr>)) \<and>
   process_phase2a HOSTB
     (pack_slice [0x78] @ pack_uint64 1 @ pack_ballot \<lparr>number = 900, leader = HOSTB\<rparr> @
      pack_pvalue \<lparr>pvalue_b = \<lparr>number = 900, leader = HOSTB\<rparr>, pvalue_v = [0x32]\<rparr>)
     promised_daemon = Inl (UseAfterFree promised_daemon)"
proof -
  have np: "\<not> put_fails (db promised_daemon) ([0x78] @ [char_A])"
    by (simp add: promised_daemon_def)
  have "process_phase2a HOSTA
     (pack_slice [0x78] @ pack_uint64 1 @ pack_ballot \<lparr>number = 1000, leader = HOSTA\<rparr> @
      pack_pvalue \<lparr>pvalue_b = \<lparr>number = 1000, leader = HOSTA\<rparr>, pvalue_v = [0x31]\<rparr>)
     promised_daemon =
   Inl (UseAfterFree
     (promised_daemon\<lparr>db := (db promised_daemon)\<lparr>cells := (cells (db promised_daemon))
          ([0x78] @ [char_A] \<mapsto>
             pack_uint64 1 @ pack_ballot \<lparr>number = 1000, leader = HOSTA\<rparr> @
             pack_pvalue \<lparr>pvalue_b = \<lparr>number = 1000, leader = HOSTA\<rparr>, pvalue_v = [0x31]\<rparr>)\<rparr>\<rparr>))"
    using process_phase2a_until_reply [of
        "pack_slice [0x78] @ pack_uint64 1 @ pack_ballot \<lparr>number = 1000, leader = HOSTA\<rparr> @
         pack_pvalue \<lparr>pvalue_b = \<lparr>number = 1000, leader = HOSTA\<rparr>, pvalue_v = [0x31]\<rparr>"
        "[0x78]" 1 "\<lparr>number = 1000, leader = HOSTA\<rparr>"
        "\<lparr>pvalue_b = \<lparr>number = 1000, leader = HOSTA\<rparr>, pvalue_v = [0x31]\<rparr>"
        promised_daemon 1 "\<lparr>number = 1000, leader = HOSTA\<rparr>" pvalue0 HOSTA] np
    by (simp add: get_acceptor_state_promised)
  moreover have "process_phase2a HOSTB
     (pack_slice [0x78] @ pack_uint64 1 @ pack_ballot \<lparr>number = 900, leader = HOSTB\<rparr> @
      pack_pvalue \<lparr>pvalue_b = \<lparr>number = 900, leader = HOSTB\<rparr>, pvalue_v = [0x32]\<rparr>)
     promised_daemon = Inl (UseAfterFree promised_daemon)"
    using process_phase2a_until_reply [of
        "pack_slice [0x78] @ pack_uint64 1 @ pack_ballot \<lparr>number = 900, leader = HOSTB\<rparr> @
         pack_pvalue \<lparr>pvalue_b = \<lparr>number = 900, leader = HOSTB\<rparr>, pvalue_v = [0x32]\<rparr>"
        "[0x78]" 1 "\<lparr>number = 900, leader = HOSTB\<rparr>"
        "\<lparr>pvalue_b = \<lparr>number = 900, leader = HOSTB\<rparr>, pvalue_v = [0x32]\<rparr>"
        promised_daemon 1 "\<lparr>number = 1000, leader = HOSTA\<rparr>" pvalue0 HOSTB]
    by (simp add: get_acceptor_state_promised)
  ultimately show ?thesis by simp
qed

section \<open>Failures of the durable map\<close>

text \<open>
  The claim C9, that every handler in which a get or a put of the durable map fails sends
  no reply, does not hold of the get path: \<open>process_get\<close> turns a failed get into the
  return code \<open>POCDB_SERVER_ERROR\<close> and sends the reply.
\<close>

theorem get_replies_on_storage_failure:
  "get_fails (db get_faulty_daemon) ([0x78] @ [char_L]) \<and>
   process_get HOSTA (pack_slice [0x78]) get_faulty_daemon =
     (get_faulty_daemon, [(HOSTA, [rc_byte POCDB_SERVER_ERROR] @ pack_slice [])])"
  by (simp add: get_faulty_daemon_def all_fault_def process_get_def db_Get_def)

text \<open>
  C9, amended. In the phase-1a and phase-2a handlers, if the get of the acceptor record
  fails, or the put of the acceptor record is made and fails, the handler sends nothing
  and leaves the daemon as it was. The learn handler never sends anything, and a failed put
  leaves the daemon as it was. In the get path a failed get is answered with
  \<open>POCDB_SERVER_ERROR\<close> and the empty value.
\<close>

theorem storage_failure_replies:
  "(unpack_k_ver_b upa = Some (k, ver, x) \<and> get_fails (db d) (k @ [char_A])
      \<longrightarrow> process_phase1a c upa d = Inr (d, [])) \<and>
   (unpack_k_ver_b upa = Some (k, ver, x) \<and>
    get_acceptor_state d k = Inr (POCDB_SUCCESS, cur_ver, cur_b, cur_v) \<and>
    c = leader x \<and> ballot_greater x cur_b \<and> cur_ver \<le> ver \<and> put_fails (db d) (k @ [char_A])
      \<longrightarrow> process_phase1a c upa d = Inr (d, [])) \<and>
   (unpack_k_ver_b_v upb = Some (k, ver, x, p) \<and> get_fails (db d) (k @ [char_A])
      \<longrightarrow> process_phase2a c upb d = Inr (d, [])) \<and>
   (unpack_k_ver_b_v upb = Some (k, ver, x, p) \<and>
    get_acceptor_state d k = Inr (POCDB_SUCCESS, cur_ver, cur_b, cur_v) \<and>
    ver = cur_ver \<and> x = cur_b \<and> put_fails (db d) (k @ [char_A])
      \<longrightarrow> process_phase2a c upb d = Inr (d, [])) \<and>
   snd (process_learn c upc d) = [] \<and>
   (unpack_k_ver_v upc = Some (k, ver, val) \<and> put_fails (db d) (k @ [char_L])
      \<longrightarrow> process_learn c upc d = (d, [])) \<and>
   (unpack_slice upd = Some (k, r) \<and> get_fails (db d) (k @ [char_L])
      \<longrightarrow> process_get c upd d = (d, [(c, [rc_byte POCDB_SERVER_ERROR] @ pack_slice [])]))"
proof -
  have g: "get_fails (db d) (k @ [char_A]) \<Longrightarrow>
      get_acceptor_state d k = Inr (POCDB_SERVER_ERROR, 0, ballot0, pvalue0)"
    by (simp add: get_acceptor_state_def db_Get_def)
  have 1: "unpack_k_ver_b upa = Some (k, ver, x) \<and> get_fails (db d) (k @ [char_A])
      \<longrightarrow> process_phase1a c upa d = Inr (d, [])"
    by (simp add: process_phase1a_def g)
  have 2: "unpack_k_ver_b upa = Some (k, ver, x) \<and>
    get_acceptor_state d k = Inr (POCDB_SUCCESS, cur_ver, cur_b, cur_v) \<and>
    c = leader x \<and> ballot_greater x cur_b \<and> cur_ver \<le> ver \<and> put_fails (db d) (k @ [char_A])
      \<longrightarrow> process_phase1a c upa d = Inr (d, [])"
    by (simp add: process_phase1a_def save_acceptor_state_def db_Put_def)
  have 3: "unpack_k_ver_b_v upb = Some (k, ver, x, p) \<and> get_fails (db d) (k @ [char_A])
      \<longrightarrow> process_phase2a c upb d = Inr (d, [])"
    by (simp add: process_phase2a_def g)
  have 4: "unpack_k_ver_b_v upb = Some (k, ver, x, p) \<and>
    get_acceptor_state d k = Inr (POCDB_SUCCESS, cur_ver, cur_b, cur_v) \<and>
    ver = cur_ver \<and> x = cur_b \<and> put_fails (db d) (k @ [char_A])
      \<longrightarrow> process_phase2a c upb d = Inr (d, [])"
    by (simp add: process_phase2a_def save_acceptor_state_def db_Put_def)
  have 5: "snd (process_learn c upc d) = []"
    by (simp add: process_learn_def split: option.splits prod.splits)
  have 6: "unpack_k_ver_v upc = Some (k, ver, val) \<and> put_fails (db d) (k @ [char_L])
      \<longrightarrow> process_learn c upc d = (d, [])"
    by (simp add: process_learn_def db_Put_def)
  have 7: "unpack_slice upd = Some (k, r) \<and> get_fails (db d) (k @ [char_L])
      \<longrightarrow> process_get c upd d = (d, [(c, [rc_byte POCDB_SERVER_ERROR] @ pack_slice [])])"
    by (simp add: process_get_def db_Get_def)
  from 1 2 3 4 5 6 7 show ?thesis by blast
qed

text \<open>The witness: each of the handlers on a map that fails every get or every put.\<close>

theorem storage_failure_replies_witness:
  "process_phase1a HOSTA
     (pack_slice [0x78] @ pack_uint64 1 @ pack_ballot \<lparr>number = 1000, leader = HOSTA\<rparr>)
     get_faulty_daemon = Inr (get_faulty_daemon, []) \<and>
   process_phase2a HOSTA
     (pack_slice [0x78] @ pack_uint64 1 @ pack_ballot \<lparr>number = 1000, leader = HOSTA\<rparr> @
      pack_pvalue \<lparr>pvalue_b = \<lparr>number = 1000, leader = HOSTA\<rparr>, pvalue_v = [0x31]\<rparr>)
     get_faulty_daemon = Inr (get_faulty_daemon, []) \<and>
   process_get HOSTA (pack_slice [0x78]) get_faulty_daemon =
     (get_faulty_daemon, [(HOSTA, [rc_byte POCDB_SERVER_ERROR] @ pack_slice [])]) \<and>
   process_phase1a HOSTA
     (pack_slice [0x78] @ pack_uint64 1 @ pack_ballot \<lparr>number = 1000, leader = HOSTA\<rparr>)
     put_faulty_daemon = Inr (put_faulty_daemon, []) \<and>
   process_phase2a HOSTA
     (pack_slice [0x78] @ pack_uint64 0 @ pack_ballot ballot0 @
      pack_pvalue \<lparr>pvalue_b = ballot0, pvalue_v = [0x31]\<rparr>)
     put_faulty_daemon = Inr (put_faulty_daemon, []) \<and>
   process_learn HOSTA (pack_slice [0x78] @ pack_uint64 1 @ pack_slice [0x31]) put_faulty_daemon =
     (put_faulty_daemon, [])"
proof -
  have gf: "get_fails (db get_faulty_daemon) kk" for kk
    by (simp add: get_faulty_daemon_def all_fault_def)
  have pf: "put_fails (db put_faulty_daemon) kk" for kk
    by (simp add: put_faulty_daemon_def all_fault_def)
  have bg: "ballot_greater \<lparr>number = 1000, leader = HOSTA\<rparr> ballot0"
    by (simp add: ballot_greater_def ballot_less_def ballot0_def)
  note g = storage_failure_replies [where d = get_faulty_daemon and c = HOSTA
      and k = "[0x78]" and ver = 1 and x = "\<lparr>number = 1000, leader = HOSTA\<rparr>"
      and upa = "pack_slice [0x78] @ pack_uint64 1 @ pack_ballot \<lparr>number = 1000, leader = HOSTA\<rparr>"
      and upb = "pack_slice [0x78] @ pack_uint64 1 @ pack_ballot \<lparr>number = 1000, leader = HOSTA\<rparr> @
        pack_pvalue \<lparr>pvalue_b = \<lparr>number = 1000, leader = HOSTA\<rparr>, pvalue_v = [0x31]\<rparr>"
      and p = "\<lparr>pvalue_b = \<lparr>number = 1000, leader = HOSTA\<rparr>, pvalue_v = [0x31]\<rparr>"
      and upd = "pack_slice [0x78]" and r = "[]"]
  note p1 = storage_failure_replies [where d = put_faulty_daemon and c = HOSTA
      and k = "[0x78]" and ver = 1 and x = "\<lparr>number = 1000, leader = HOSTA\<rparr>"
      and upa = "pack_slice [0x78] @ pack_uint64 1 @ pack_ballot \<lparr>number = 1000, leader = HOSTA\<rparr>"
      and cur_ver = 0 and cur_b = ballot0 and cur_v = pvalue0
      and upc = "pack_slice [0x78] @ pack_uint64 1 @ pack_slice [0x31]" and val = "[0x31]"]
  note p2 = storage_failure_replies [where d = put_faulty_daemon and c = HOSTA
      and k = "[0x78]" and ver = 0 and x = ballot0
      and upb = "pack_slice [0x78] @ pack_uint64 0 @ pack_ballot ballot0 @
        pack_pvalue \<lparr>pvalue_b = ballot0, pvalue_v = [0x31]\<rparr>"
      and p = "\<lparr>pvalue_b = ballot0, pvalue_v = [0x31]\<rparr>"
      and cur_ver = 0 and cur_b = ballot0 and cur_v = pvalue0]
  have a: "process_phase1a HOSTA
     (pack_slice [0x78] @ pack_uint64 1 @ pack_ballot \<lparr>number = 1000, leader = HOSTA\<rparr>)
     get_faulty_daemon = Inr (get_faulty_daemon, [])"
    using g gf by simp
  have b: "process_phase2a HOSTA
     (pack_slice [0x78] @ pack_uint64 1 @ pack_ballot \<lparr>number = 1000, leader = HOSTA\<rparr> @
      pack_pvalue \<lparr>pvalue_b = \<lparr>number = 1000, leader = HOSTA\<rparr>, pvalue_v = [0x31]\<rparr>)
     get_faulty_daemon = Inr (get_faulty_daemon, [])"
    using g gf by simp
  have c: "process_get HOSTA (pack_slice [0x78]) get_faulty_daemon =
     (get_faulty_daemon, [(HOSTA, [rc_byte POCDB_SERVER_ERROR] @ pack_slice [])])"
    using g gf by simp
  have d: "process_phase1a HOSTA
     (pack_slice [0x78] @ pack_uint64 1 @ pack_ballot \<lparr>number = 1000, leader = HOSTA\<rparr>)
     put_faulty_daemon = Inr (put_faulty_daemon, [])"
    using p1 pf bg by (simp add: get_acceptor_state_put_faulty)
  have e: "process_phase2a HOSTA
     (pack_slice [0x78] @ pack_uint64 0 @ pack_ballot ballot0 @
      pack_pvalue \<lparr>pvalue_b = ballot0, pvalue_v = [0x31]\<rparr>)
     put_faulty_daemon = Inr (put_faulty_daemon, [])"
    using p2 pf by (simp add: get_acceptor_state_put_faulty)
  have f: "process_learn HOSTA (pack_slice [0x78] @ pack_uint64 1 @ pack_slice [0x31])
     put_faulty_daemon = (put_faulty_daemon, [])"
    using p1 pf by simp
  from a b c d e f show ?thesis by simp
qed

section \<open>The proposer: the branches of \<open>work_state_machine\<close>\<close>

lemma QUORUM_eq: "QUORUM = 3"
  by (simp add: QUORUM_def NUM_HOSTS_def)

lemma not_ballot_greater_ballot0 [simp]: "\<not> ballot_greater ballot0 x"
  by (simp add: ballot_greater_def ballot_less_def ballot0_def)

lemma work_state_machine_idle:
  "\<not> executing_paxos s \<Longrightarrow> values_q s = [] \<Longrightarrow> work_state_machine h now s = Inr (s, [])"
  by (subst work_state_machine.simps) simp

lemma work_state_machine_start:
  "\<not> executing_paxos s \<Longrightarrow> values_q s \<noteq> [] \<Longrightarrow>
   work_state_machine h now s = Inr (start_round h now s, send_phase1a (start_round h now s))"
  by (subst work_state_machine.simps) (simp add: start_round_def QUORUM_eq Let_def)

lemma work_state_machine_outbid:
  "executing_paxos s \<Longrightarrow> ballot_greater (pvalue_b (max_accepted s)) (leading s) \<Longrightarrow>
   work_state_machine h now s = work_state_machine h now (s\<lparr>executing_paxos := False\<rparr>)"
  by (subst work_state_machine.simps) simp

lemma work_state_machine_phase1:
  "executing_paxos s \<Longrightarrow> \<not> ballot_greater (pvalue_b (max_accepted s)) (leading s) \<Longrightarrow>
   length (promises s) < QUORUM \<Longrightarrow>
   work_state_machine h now s = Inr (s, send_phase1a s)"
  by (subst work_state_machine.simps) simp

lemma work_state_machine_phase2:
  "executing_paxos s \<Longrightarrow> \<not> ballot_greater (pvalue_b (max_accepted s)) (leading s) \<Longrightarrow>
   QUORUM \<le> length (promises s) \<Longrightarrow> length (accepted s) < QUORUM \<Longrightarrow>
   work_state_machine h now s =
     Inr (s\<lparr>max_accepted := (max_accepted s)\<lparr>pvalue_b := leading s\<rparr>\<rparr>,
          send_phase2a (s\<lparr>max_accepted := (max_accepted s)\<lparr>pvalue_b := leading s\<rparr>\<rparr>))"
  by (subst work_state_machine.simps) (simp add: Let_def)

lemma work_state_machine_decision:
  "executing_paxos s \<Longrightarrow> \<not> ballot_greater (pvalue_b (max_accepted s)) (leading s) \<Longrightarrow>
   QUORUM \<le> length (promises s) \<Longrightarrow> QUORUM \<le> length (accepted s) \<Longrightarrow>
   values_q s = (c, val) # rest \<Longrightarrow>
   work_state_machine h now s =
     (if pvalue_v (max_accepted s) = val then
        sent_before (send_learn s @ [(c, msg_put_reply POCDB_SUCCESS)])
          (work_state_machine h now
             (s\<lparr>executing_paxos := False, version := version s + 1, values_q := rest\<rparr>))
      else
        sent_before (send_learn s)
          (work_state_machine h now (s\<lparr>executing_paxos := False, version := version s + 1\<rparr>)))"
  by (subst work_state_machine.simps) (simp add: Let_def)

lemma work_state_machine_decision_empty:
  "executing_paxos s \<Longrightarrow> \<not> ballot_greater (pvalue_b (max_accepted s)) (leading s) \<Longrightarrow>
   QUORUM \<le> length (promises s) \<Longrightarrow> QUORUM \<le> length (accepted s) \<Longrightarrow>
   values_q s = [] \<Longrightarrow>
   work_state_machine h now s = Inl FrontOfEmptyList"
  by (subst work_state_machine.simps) (simp add: Let_def)

lemma sent_before_Inr [simp]: "sent_before out (Inr (s, out')) = Inr (s, out @ out')"
  by (simp add: sent_before_def)

lemma sent_before_Inl [simp]: "sent_before out (Inl u) = Inl u"
  by (simp add: sent_before_def)

lemmas hosts_eval = HOSTS_def HOSTA_def HOSTB_def HOSTC_def HOSTD_def HOSTE_def

lemmas tags_eval = char_P_def char_G_def char_a_def char_b_def char_A_def char_B_def
  char_L_def char_R_def

lemmas wsm_eval =
  work_state_machine_idle work_state_machine_start work_state_machine_outbid
  work_state_machine_phase1 work_state_machine_phase2 work_state_machine_decision
  wsm_write_def phase1b_def phase2b_def retry_def start_round_def QUORUM_eq Let_def
  ballot_greater_def ballot_less_def ballot0_def pvalue0_def ballot_A_def
  new_write_state_machine_def state_of_def

lemma promise_ops_state:
  "state_of (run_ops HOSTA promise_ops (new_write_state_machine [0x78])) = Inr proposing_machine"
  by (simp add: promise_ops_def proposing_machine_def wsm_eval)

section \<open>A round in flight has a pending write\<close>

lemma work_state_machine_not_executing:
  assumes "\<not> executing_paxos s"
  shows "\<exists>s' out. work_state_machine h now s = Inr (s', out) \<and> queue_ok s'"
proof (cases "values_q s = []")
  case True
  with assms show ?thesis by (simp add: work_state_machine_idle queue_ok_def)
next
  case False
  with assms show ?thesis
    by (simp add: work_state_machine_start queue_ok_def start_round_def)
qed

lemma work_state_machine_queue_ok:
  assumes "queue_ok s"
  shows "\<exists>s' out. work_state_machine h now s = Inr (s', out) \<and> queue_ok s'"
proof (cases "executing_paxos s")
  case False
  then show ?thesis by (rule work_state_machine_not_executing)
next
  case ex: True
  with assms obtain c val rest where q: "values_q s = (c, val) # rest"
    by (cases "values_q s") (auto simp: queue_ok_def)
  show ?thesis
  proof (cases "ballot_greater (pvalue_b (max_accepted s)) (leading s)")
    case True
    with ex have "work_state_machine h now s = work_state_machine h now (s\<lparr>executing_paxos := False\<rparr>)"
      by (rule work_state_machine_outbid)
    moreover have "\<exists>s' out. work_state_machine h now (s\<lparr>executing_paxos := False\<rparr>) = Inr (s', out) \<and> queue_ok s'"
      by (rule work_state_machine_not_executing) simp
    ultimately show ?thesis by simp
  next
    case nb: False
    show ?thesis
    proof (cases "length (promises s) < QUORUM")
      case True
      with ex nb assms show ?thesis by (simp add: work_state_machine_phase1)
    next
      case p: False
      show ?thesis
      proof (cases "length (accepted s) < QUORUM")
        case True
        with ex nb p assms show ?thesis
          by (simp add: work_state_machine_phase2 queue_ok_def)
      next
        case a: False
        have "\<exists>s' out. work_state_machine h now
            (s\<lparr>executing_paxos := False, version := version s + 1, values_q := rest\<rparr>) =
            Inr (s', out) \<and> queue_ok s'"
          by (rule work_state_machine_not_executing) simp
        moreover have "\<exists>s' out. work_state_machine h now
            (s\<lparr>executing_paxos := False, version := version s + 1\<rparr>) =
            Inr (s', out) \<and> queue_ok s'"
          by (rule work_state_machine_not_executing) simp
        ultimately show ?thesis
          using ex nb p a q by (auto simp: work_state_machine_decision)
      qed
    qed
  qed
qed

lemma apply_op_queue_ok:
  assumes "queue_ok s"
  shows "\<exists>s' out. apply_op h now opn s = Inr (s', out) \<and> queue_ok s'"
proof (cases opn)
  case (Write c val)
  have "queue_ok (s\<lparr>values_q := values_q s @ [(c, val)]\<rparr>)"
    by (simp add: queue_ok_def)
  then show ?thesis
    unfolding Write apply_op.simps wsm_write_def by (rule work_state_machine_queue_ok)
next
  case (Phase1b c ver x p)
  have q: "queue_ok (t\<lparr>promises := promises t @ [c]\<rparr>)" if "queue_ok t" for t
    using that by (simp add: queue_ok_def)
  show ?thesis
  proof (cases "(version s \<noteq> 0 \<and> ver > version s) \<or> ballot_greater x (leading s)")
    case True
    then have "apply_op h now opn s =
        work_state_machine h now (s\<lparr>executing_paxos := False, version := ver\<rparr>)"
      by (simp add: Phase1b phase1b_def)
    moreover have "\<exists>s' out. work_state_machine h now
        (s\<lparr>executing_paxos := False, version := ver\<rparr>) = Inr (s', out) \<and> queue_ok s'"
      by (rule work_state_machine_queue_ok) (simp add: queue_ok_def)
    ultimately show ?thesis by (simp only:)
  next
    case False
    define t where "t = (if pvalue_b p \<noteq> ballot0 \<and>
        ballot_greater (pvalue_b p) (pvalue_b (max_accepted (s\<lparr>version := ver\<rparr>)))
      then s\<lparr>version := ver, max_accepted := p\<rparr> else s\<lparr>version := ver\<rparr>)"
    have "queue_ok t"
      using assms by (simp add: t_def queue_ok_def)
    then have "\<exists>s' out. work_state_machine h now (t\<lparr>promises := promises t @ [c]\<rparr>) =
        Inr (s', out) \<and> queue_ok s'"
      by (intro work_state_machine_queue_ok q)
    moreover from False have "apply_op h now opn s =
        work_state_machine h now (t\<lparr>promises := promises t @ [c]\<rparr>)"
      by (auto simp: Phase1b phase1b_def Let_def t_def)
    ultimately show ?thesis by (simp only:)
  qed
next
  case (Phase2b c ver x)
  show ?thesis
  proof (cases "ver \<noteq> version s \<or> x \<noteq> leading s")
    case True
    then have "apply_op h now opn s = Inr (s, [])"
      by (simp add: Phase2b phase2b_def)
    with assms show ?thesis by simp
  next
    case False
    then have "apply_op h now opn s =
        work_state_machine h now (s\<lparr>accepted := accepted s @ [c]\<rparr>)"
      by (simp add: Phase2b phase2b_def)
    moreover have "\<exists>s' out. work_state_machine h now (s\<lparr>accepted := accepted s @ [c]\<rparr>) =
        Inr (s', out) \<and> queue_ok s'"
      using assms by (intro work_state_machine_queue_ok) (simp add: queue_ok_def)
    ultimately show ?thesis by (simp only:)
  qed
next
  case Retry
  show ?thesis
    unfolding Retry apply_op.simps retry_def
    by (rule work_state_machine_queue_ok) (simp add: queue_ok_def)
qed

lemma run_ops_queue_ok:
  "queue_ok s \<Longrightarrow> \<exists>s' out. run_ops h ops s = Inr (s', out) \<and> queue_ok s'"
proof (induction ops arbitrary: s)
  case Nil
  then show ?case by simp
next
  case (Cons a ops)
  obtain now opn where a: "a = (now, opn)" by (cases a)
  from apply_op_queue_ok [OF Cons.prems] obtain s1 out1
    where 1: "apply_op h now opn s = Inr (s1, out1)" and "queue_ok s1" by blast
  from Cons.IH [OF this(2)] obtain s2 out2
    where "run_ops h ops s1 = Inr (s2, out2)" and "queue_ok s2" by blast
  with 1 show ?case by (simp add: a)
qed

text \<open>
  C10. From the freshly constructed machine, every sequence of calls of \<open>write\<close>,
  \<open>phase1b\<close>, \<open>phase2b\<close> and \<open>retry\<close> returns without taking the front of an empty
  queue (the only undefined behaviour of \<open>work_state_machine\<close>, at its decision step) and
  ends in a state in which \<open>executing_paxos\<close> implies that the queue is not empty. The
  other access, at the start of a round, is made only after the test that the queue is not
  empty.
\<close>

theorem executing_implies_queue_nonempty:
  "\<exists>s out. run_ops h ops (new_write_state_machine k) = Inr (s, out) \<and>
     (executing_paxos s \<longrightarrow> values_q s \<noteq> [])"
  using run_ops_queue_ok [of "new_write_state_machine k" h ops]
  by (simp add: queue_ok_def new_write_state_machine_def)

text \<open>The witness: the run up to phase 2, which ends with a round in flight.\<close>

theorem executing_implies_queue_nonempty_witness:
  "state_of (run_ops HOSTA promise_ops (new_write_state_machine [0x78])) = Inr proposing_machine \<and>
   executing_paxos proposing_machine \<and> values_q proposing_machine \<noteq> []"
proof -
  obtain s out where r: "run_ops HOSTA promise_ops (new_write_state_machine [0x78]) = Inr (s, out)"
    and i: "executing_paxos s \<longrightarrow> values_q s \<noteq> []"
    using executing_implies_queue_nonempty [of HOSTA promise_ops "[0x78]"] by blast
  have e: "state_of (run_ops HOSTA promise_ops (new_write_state_machine [0x78])) = Inr proposing_machine"
    by (rule promise_ops_state)
  with r have "s = proposing_machine" by (simp add: state_of_def)
  moreover have "executing_paxos proposing_machine" by (simp add: proposing_machine_def)
  ultimately show ?thesis using e i by simp
qed

section \<open>The decision step\<close>

text \<open>
  The claim C5 speaks of every run of \<open>work_state_machine\<close> with promises and accepts at
  quorum. The two lists are cleared only when a round starts, so they are still at quorum
  in the run that the decision step itself enters at its end, with \<open>executing_paxos\<close>
  false. With the writes of the clients 7 and 8 queued, the decision of the first round
  enters \<open>work_state_machine\<close> on the decided machine with the write of 8 pending; that
  run starts the second round: five phase-1a messages, no learn message, and the version
  as it was.
\<close>

theorem advance_with_quorum_starts_round:
  "work_state_machine HOSTA 2000
     (proposing_machine\<lparr>values_q := [(7, [0x31]), (8, [0x32])],
        accepted := [HOSTA, HOSTB, HOSTC]\<rparr>) =
     sent_before
       (map (\<lambda>i. (i, msg_learn [0x78] 1 [0x31])) HOSTS @ [(7, msg_put_reply POCDB_SUCCESS)])
       (work_state_machine HOSTA 2000
          ((decided_machine [HOSTA, HOSTB, HOSTC])\<lparr>values_q := [(8, [0x32])]\<rparr>)) \<and>
   QUORUM \<le> length (promises ((decided_machine [HOSTA, HOSTB, HOSTC])\<lparr>values_q := [(8, [0x32])]\<rparr>)) \<and>
   QUORUM \<le> length (accepted ((decided_machine [HOSTA, HOSTB, HOSTC])\<lparr>values_q := [(8, [0x32])]\<rparr>)) \<and>
   work_state_machine HOSTA 2000 ((decided_machine [HOSTA, HOSTB, HOSTC])\<lparr>values_q := [(8, [0x32])]\<rparr>) =
     Inr (second_round_machine,
          map (\<lambda>i. (i, msg_phase1a [0x78] 2 \<lparr>number = 2000, leader = HOSTA\<rparr>)) HOSTS) \<and>
   version second_round_machine =
     version ((decided_machine [HOSTA, HOSTB, HOSTC])\<lparr>values_q := [(8, [0x32])]\<rparr>)"
proof -
  have "work_state_machine HOSTA 2000
     (proposing_machine\<lparr>values_q := [(7, [0x31]), (8, [0x32])],
        accepted := [HOSTA, HOSTB, HOSTC]\<rparr>) =
     sent_before
       (map (\<lambda>i. (i, msg_learn [0x78] 1 [0x31])) HOSTS @ [(7, msg_put_reply POCDB_SUCCESS)])
       (work_state_machine HOSTA 2000
          ((decided_machine [HOSTA, HOSTB, HOSTC])\<lparr>values_q := [(8, [0x32])]\<rparr>))"
    using work_state_machine_decision [of
        "proposing_machine\<lparr>values_q := [(7, [0x31]), (8, [0x32])],
           accepted := [HOSTA, HOSTB, HOSTC]\<rparr>" 7 "[0x31]" "[(8, [0x32])]" HOSTA 2000]
    by (simp add: proposing_machine_def decided_machine_def QUORUM_eq ballot_greater_def
        ballot_less_def send_learn_def)
  moreover have "work_state_machine HOSTA 2000
      ((decided_machine [HOSTA, HOSTB, HOSTC])\<lparr>values_q := [(8, [0x32])]\<rparr>) =
     Inr (second_round_machine,
          map (\<lambda>i. (i, msg_phase1a [0x78] 2 \<lparr>number = 2000, leader = HOSTA\<rparr>)) HOSTS)"
    by (simp add: decided_machine_def second_round_machine_def work_state_machine_start
        start_round_def send_phase1a_def)
  ultimately show ?thesis
    by (simp add: decided_machine_def second_round_machine_def QUORUM_eq)
qed

text \<open>
  C5, amended. When \<open>work_state_machine\<close> runs with a round in flight, \<open>max_accepted\<close>
  not above \<open>leading\<close>, promises and accepts at quorum and a pending write \<open>(c, val)\<close> at
  the head of the queue, it sends the learn message for the key, the version and the value
  of \<open>max_accepted\<close> to the five hosts, sets \<open>executing_paxos\<close> to false and adds one to
  the version; if the value of \<open>max_accepted\<close> is \<open>val\<close> it replies \<open>POCDB_SUCCESS\<close> to
  \<open>c\<close> and pops the entry, otherwise the entry stays; then it runs again on the new state.
\<close>

theorem advance_decision:
  assumes "executing_paxos s"
    and "\<not> ballot_greater (pvalue_b (max_accepted s)) (leading s)"
    and "QUORUM \<le> length (promises s)"
    and "QUORUM \<le> length (accepted s)"
    and "values_q s = (c, val) # rest"
  shows "work_state_machine h now s =
     (if pvalue_v (max_accepted s) = val then
        sent_before
          (map (\<lambda>i. (i, msg_learn (key s) (version s) (pvalue_v (max_accepted s)))) HOSTS @
           [(c, msg_put_reply POCDB_SUCCESS)])
          (work_state_machine h now
             (s\<lparr>executing_paxos := False, version := version s + 1, values_q := rest\<rparr>))
      else
        sent_before
          (map (\<lambda>i. (i, msg_learn (key s) (version s) (pvalue_v (max_accepted s)))) HOSTS)
          (work_state_machine h now (s\<lparr>executing_paxos := False, version := version s + 1\<rparr>)))"
  using work_state_machine_decision [OF assms, of h now] by (simp add: send_learn_def)

text \<open>
  The witness: the decision of the round of \<open>proposing_machine\<close> for the client's own
  value, after which the machine is idle, and for another value reported in phase 1,
  after which the write is still queued and the next round starts.
\<close>

theorem advance_decision_witness:
  "work_state_machine HOSTA 1006 (proposing_machine\<lparr>accepted := [HOSTA, HOSTB, HOSTC]\<rparr>) =
     Inr (decided_machine [HOSTA, HOSTB, HOSTC],
          map (\<lambda>i. (i, msg_learn [0x78] 1 [0x31])) HOSTS @ [(7, msg_put_reply POCDB_SUCCESS)]) \<and>
   work_state_machine HOSTA 1006
     (proposing_machine\<lparr>accepted := [HOSTA, HOSTB, HOSTC],
        max_accepted := \<lparr>pvalue_b = ballot_A, pvalue_v = [0x30]\<rparr>\<rparr>) =
     Inr (\<lparr>key = [0x78], values_q = [(7, [0x31])], executing_paxos = True,
           leading = \<lparr>number = 1006, leader = HOSTA\<rparr>, promises = [], accepted = [],
           max_accepted = \<lparr>pvalue_b = ballot0, pvalue_v = [0x31]\<rparr>, version = 2\<rparr>,
          map (\<lambda>i. (i, msg_learn [0x78] 1 [0x30])) HOSTS @
          map (\<lambda>i. (i, msg_phase1a [0x78] 2 \<lparr>number = 1006, leader = HOSTA\<rparr>)) HOSTS)"
proof -
  have "work_state_machine HOSTA 1006 (proposing_machine\<lparr>accepted := [HOSTA, HOSTB, HOSTC]\<rparr>) =
     Inr (decided_machine [HOSTA, HOSTB, HOSTC],
          map (\<lambda>i. (i, msg_learn [0x78] 1 [0x31])) HOSTS @ [(7, msg_put_reply POCDB_SUCCESS)])"
    using advance_decision [of "proposing_machine\<lparr>accepted := [HOSTA, HOSTB, HOSTC]\<rparr>"
        7 "[0x31]" "[]" HOSTA 1006]
    by (simp add: proposing_machine_def decided_machine_def QUORUM_eq ballot_greater_def
        ballot_less_def work_state_machine_idle)
  moreover have "work_state_machine HOSTA 1006
     (proposing_machine\<lparr>accepted := [HOSTA, HOSTB, HOSTC],
        max_accepted := \<lparr>pvalue_b = ballot_A, pvalue_v = [0x30]\<rparr>\<rparr>) =
     Inr (\<lparr>key = [0x78], values_q = [(7, [0x31])], executing_paxos = True,
           leading = \<lparr>number = 1006, leader = HOSTA\<rparr>, promises = [], accepted = [],
           max_accepted = \<lparr>pvalue_b = ballot0, pvalue_v = [0x31]\<rparr>, version = 2\<rparr>,
          map (\<lambda>i. (i, msg_learn [0x78] 1 [0x30])) HOSTS @
          map (\<lambda>i. (i, msg_phase1a [0x78] 2 \<lparr>number = 1006, leader = HOSTA\<rparr>)) HOSTS)"
    using advance_decision [of "proposing_machine\<lparr>accepted := [HOSTA, HOSTB, HOSTC],
        max_accepted := \<lparr>pvalue_b = ballot_A, pvalue_v = [0x30]\<rparr>\<rparr>"
        7 "[0x31]" "[]" HOSTA 1006]
    by (simp add: proposing_machine_def QUORUM_eq ballot_greater_def
        ballot_less_def work_state_machine_start start_round_def send_phase1a_def)
  ultimately show ?thesis by simp
qed

text \<open>
  C2. The claim: whenever the decision step is reached and the learn message is sent, at
  least three distinct hosts are in the accepted set of the round. \<open>phase2b\<close> appends the
  sender without looking for it in \<open>accepted\<close>, and the decision step compares the length
  of the list with the quorum. From the fresh machine, the run up to phase 2 followed by
  three phase-2b messages from the one host B ends with the learn message sent to the
  five hosts and the success reply to the client; B is the only host in \<open>accepted\<close>.
\<close>

theorem learn_after_one_host_accepted:
  "state_of (run_ops HOSTA
      (promise_ops @ [(1004, Phase2b HOSTB 1 ballot_A), (1005, Phase2b HOSTB 1 ballot_A)])
      (new_write_state_machine [0x78])) =
     Inr (proposing_machine\<lparr>accepted := [HOSTB, HOSTB]\<rparr>) \<and>
   apply_op HOSTA 1006 (Phase2b HOSTB 1 ballot_A) (proposing_machine\<lparr>accepted := [HOSTB, HOSTB]\<rparr>) =
     Inr (decided_machine [HOSTB, HOSTB, HOSTB],
          map (\<lambda>i. (i, msg_learn [0x78] 1 [0x31])) HOSTS @
          [(7, msg_put_reply POCDB_SUCCESS)]) \<and>
   set (accepted (proposing_machine\<lparr>accepted := [HOSTB, HOSTB, HOSTB]\<rparr>)) = {HOSTB}"
  by (simp add: promise_ops_def proposing_machine_def decided_machine_def wsm_eval
      send_learn_def)

section \<open>Stale messages\<close>

text \<open>
  The claim C6 holds of \<open>phase2b\<close> and not of \<open>phase1b\<close>, which has no test for a stale
  version or ballot. In the second round (version 2, ballot (2000, A)) a phase-1b message
  of the first round (version 1, ballot (1000, A)) from B is counted as a promise: the
  version goes back to 1, B is in \<open>promises\<close> and the phase-1a message is sent again to
  the other four hosts.
\<close>

theorem stale_phase1b_is_counted:
  "(1, ballot_A) \<noteq> (version second_round_machine, leading second_round_machine) \<and>
   \<not> ballot_greater ballot_A (leading second_round_machine) \<and>
   phase1b HOSTB 1 ballot_A pvalue0 HOSTA 2001 second_round_machine =
     Inr (second_round_machine\<lparr>version := 1, promises := [HOSTB]\<rparr>,
          map (\<lambda>i. (i, msg_phase1a [0x78] 1 \<lparr>number = 2000, leader = HOSTA\<rparr>))
            [HOSTA, HOSTC, HOSTD, HOSTE]) \<and>
   phase1b HOSTB 1 ballot_A pvalue0 HOSTA 2001 second_round_machine \<noteq>
     Inr (second_round_machine, [])"
  by (simp add: second_round_machine_def wsm_eval send_phase1a_def hosts_eval)

text \<open>
  C6, amended. A phase-2b message whose version or ballot differs from \<open>version\<close> and
  \<open>leading\<close> leaves the machine as it is and sends nothing. A phase-1b message is never
  dropped. If it reports a ballot above \<open>leading\<close>, or a version above \<open>version\<close> while
  \<open>version\<close> is not 0, the round is abandoned (\<open>executing_paxos\<close> false, \<open>version\<close> as
  reported) and \<open>work_state_machine\<close> runs. Every other phase-1b message sets \<open>version\<close>
  to the reported one, takes the reported pvalue as \<open>max_accepted\<close> if its ballot is not
  the sentinel and above that of \<open>max_accepted\<close>, appends the sender to \<open>promises\<close>, and
  \<open>work_state_machine\<close> runs.
\<close>

theorem stale_messages:
  "(ver \<noteq> version s \<or> x \<noteq> leading s \<longrightarrow> phase2b c ver x h now s = Inr (s, [])) \<and>
   ((version s \<noteq> 0 \<and> ver > version s) \<or> ballot_greater x (leading s) \<longrightarrow>
      phase1b c ver x p h now s =
        work_state_machine h now (s\<lparr>executing_paxos := False, version := ver\<rparr>)) \<and>
   (\<not> ((version s \<noteq> 0 \<and> ver > version s) \<or> ballot_greater x (leading s)) \<longrightarrow>
      phase1b c ver x p h now s =
        work_state_machine h now
          (s\<lparr>version := ver,
             max_accepted :=
               (if pvalue_b p \<noteq> ballot0 \<and> ballot_greater (pvalue_b p) (pvalue_b (max_accepted s))
                then p else max_accepted s),
             promises := promises s @ [c]\<rparr>))"
  by (auto simp: phase2b_def phase1b_def Let_def)

text \<open>
  The witness, in the second round: a phase-2b message of the first round; a phase-1b
  message with a higher ballot, after which a new round starts at time 3000; and the
  phase-1b message of the first round.
\<close>

theorem stale_messages_witness:
  "phase2b HOSTB 1 ballot_A HOSTA 2001 second_round_machine = Inr (second_round_machine, []) \<and>
   phase1b HOSTB 2 \<lparr>number = 2500, leader = HOSTB\<rparr> pvalue0 HOSTA 3000 second_round_machine =
     Inr (second_round_machine\<lparr>leading := \<lparr>number = 3000, leader = HOSTA\<rparr>\<rparr>,
          map (\<lambda>i. (i, msg_phase1a [0x78] 2 \<lparr>number = 3000, leader = HOSTA\<rparr>)) HOSTS) \<and>
   phase1b HOSTB 1 ballot_A pvalue0 HOSTA 2001 second_round_machine =
     Inr (second_round_machine\<lparr>version := 1, promises := [HOSTB]\<rparr>,
          map (\<lambda>i. (i, msg_phase1a [0x78] 1 \<lparr>number = 2000, leader = HOSTA\<rparr>))
            [HOSTA, HOSTC, HOSTD, HOSTE])"
proof -
  note t = stale_messages [where s = second_round_machine and c = HOSTB and h = HOSTA]
  have a: "phase2b HOSTB 1 ballot_A HOSTA 2001 second_round_machine = Inr (second_round_machine, [])"
    using t [where ver = 1 and x = ballot_A and now = 2001]
    by (simp add: second_round_machine_def)
  have b: "phase1b HOSTB 2 \<lparr>number = 2500, leader = HOSTB\<rparr> pvalue0 HOSTA 3000 second_round_machine =
     Inr (second_round_machine\<lparr>leading := \<lparr>number = 3000, leader = HOSTA\<rparr>\<rparr>,
          map (\<lambda>i. (i, msg_phase1a [0x78] 2 \<lparr>number = 3000, leader = HOSTA\<rparr>)) HOSTS)"
    using t [where ver = 2 and x = "\<lparr>number = 2500, leader = HOSTB\<rparr>" and now = 3000 and p = pvalue0]
    by (simp add: second_round_machine_def ballot_greater_def ballot_less_def
        work_state_machine_start start_round_def send_phase1a_def)
  have c: "phase1b HOSTB 1 ballot_A pvalue0 HOSTA 2001 second_round_machine =
     Inr (second_round_machine\<lparr>version := 1, promises := [HOSTB]\<rparr>,
          map (\<lambda>i. (i, msg_phase1a [0x78] 1 \<lparr>number = 2000, leader = HOSTA\<rparr>))
            [HOSTA, HOSTC, HOSTD, HOSTE])"
    using t [where ver = 1 and x = ballot_A and now = 2001 and p = pvalue0]
    by (simp add: second_round_machine_def ballot_greater_def ballot_less_def ballot_A_def
        pvalue0_def ballot0_def work_state_machine_phase1 QUORUM_eq send_phase1a_def hosts_eval)
  from a b c show ?thesis by simp
qed

section \<open>Retry messages\<close>

text \<open>
  C7. The claim: a retry message carrying the key \<open>k\<close> makes the machine for \<open>k\<close> set
  \<open>executing_paxos\<close> to false, add one to its version and run \<open>work_state_machine\<close>.
  \<open>retry\<close> does so for the machine it is called on, but \<open>process_retry\<close> never reads the
  key from the message and calls it on the machine for the empty key. With the machine
  for \<open>x\<close> in phase 2, the retry message for \<open>x\<close> leaves the daemon as it was and sends
  nothing, where \<open>retry\<close> on the machine for \<open>x\<close> starts the next round at version 2.
\<close>

theorem retry_goes_to_empty_key:
  "run_message HOSTB ([char_R] @ pack_slice [0x78]) 3000 retry_daemon = Inr (retry_daemon, []) \<and>
   on_state retry_daemon [0x78] (retry (host retry_daemon) 3000) =
     Inr (retry_daemon\<lparr>writes := [[0x78] \<mapsto>
            proposing_machine\<lparr>leading := \<lparr>number = 3000, leader = HOSTA\<rparr>, promises := [],
              max_accepted := \<lparr>pvalue_b = ballot0, pvalue_v = [0x31]\<rparr>, version := 2\<rparr>]\<rparr>,
          map (\<lambda>i. (i, msg_phase1a [0x78] 2 \<lparr>number = 3000, leader = HOSTA\<rparr>)) HOSTS)"
  by (simp add: run_message_def unpack_uint8_def tags_eval process_retry_def on_state_def
      get_or_create_state_def release_state_def finished_def retry_daemon_def
      proposing_machine_def wsm_eval send_phase1a_def)

end
